theory Spec2Isabelle
  imports Main
begin

section \<open>The stored tables\<close>

text \<open>
  The enrollment controllers work on six tables of the MySQL schema. Each table is a
  list of rows in insertion order; a row is a record with the columns that take part
  in a decision or a status change of the controllers. Identifiers are natural numbers,
  times of day and timestamps are integers (seconds), and a nullable column is an
  \<open>option\<close>. Columns that play no part in a decision (names, descriptions, fee and
  payment columns, age bounds, creation timestamps) are left out.
\<close>

datatype activity_status = ActActive | ActInactive | ActCancelled

record activity =
  act_id :: nat
  act_status :: activity_status
  act_quota :: int
  act_max_students :: "int option"
  act_min_grade :: "int option"
  act_max_grade :: "int option"
  act_registration_start :: "int option"
  act_registration_end :: "int option"

text \<open>
  \<open>activity_enrollments.status\<close> is a VARCHAR column, so the status is a string;
  the table carries the key \<open>UNIQUE KEY unique_enrollment (student_id, activity_id)\<close>.
\<close>

record enrollment =
  enr_id :: nat
  enr_student :: nat
  enr_activity :: nat
  enr_status :: string
  enr_grade :: "int option"
  enr_enrolled_by :: "nat option"
  enr_notes :: "string option"
  enr_cancelled_at :: "int option"
  enr_cancellation_reason :: "string option"

datatype day_of_week =
  Monday | Tuesday | Wednesday | Thursday | Friday | Saturday | Sunday

record schedule =
  sch_id :: nat
  sch_activity :: nat
  sch_venue :: "nat option"
  sch_day :: day_of_week
  sch_start :: int
  sch_end :: int
  sch_active :: bool

datatype waitlist_status = Waiting | Notified | Promoted | Expired | WlCancelled

text \<open>
  \<open>activity_waitlist\<close> carries \<open>UNIQUE KEY unique_waitlist (student_id, activity_id)\<close>;
  \<open>priority\<close> has the column default 0, which is what every insert of the
  controller leaves it at.
\<close>

record waitlist_entry =
  wl_id :: nat
  wl_student :: nat
  wl_activity :: nat
  wl_grade :: "int option"
  wl_priority :: int
  wl_position :: int
  wl_status :: waitlist_status
  wl_promoted_at :: "int option"
  wl_notes :: "string option"

datatype conflict_type =
  TimeOverlap | VenueConflict | AgeRestriction | GradeRestrictionLog | QuotaFull

record conflict_row =
  cf_student :: nat
  cf_attempted :: nat
  cf_conflicting_activity :: "nat option"
  cf_conflicting_schedule :: "nat option"
  cf_type :: conflict_type

record audit_row =
  au_user :: nat
  au_action :: string
  au_entity_type :: string
  au_entity :: nat

record db =
  activities :: "activity list"
  enrollments :: "enrollment list"
  schedules :: "schedule list"
  waitlist :: "waitlist_entry list"
  enrollment_conflicts :: "conflict_row list"
  audit_log :: "audit_row list"

section \<open>Requests and responses\<close>

text \<open>
  The fields \<open>registerStudent\<close> destructures from the request body. A field that is
  absent from the body is \<open>None\<close>. JavaScript's \<open>!x\<close> holds for an absent field and
  for the number 0.

  \<open>notes\<close> is the one field that reaches a statement unguarded, so the model keeps
  apart the three shapes it can have in the body: the key is absent (the variable is
  \<open>undefined\<close>), the value is \<open>null\<close>, or it is a string.
\<close>

datatype body_text = Absent | JsonNull | Text string

record register_request =
  rq_student :: "nat option"
  rq_activity :: "nat option"
  rq_grade :: "int option"
  rq_enrolled_by :: "nat option"
  rq_notes :: body_text

definition falsy :: "('a::zero) option \<Rightarrow> bool" where
  "falsy x = (case x of None \<Rightarrow> True | Some v \<Rightarrow> v = 0)"

text \<open>
  The responses of \<open>registerStudent\<close>, one constructor per \<open>res.status(...).json(...)\<close>
  of the source, in source order: 400 (required fields), 404, 400 (window not open),
  400 (window closed), 400 (already enrolled), 400 (grade restriction), 409 (time
  conflict, with the conflicting activity and schedule), 200 (waitlisted: position,
  current enrollments, quota), 201 (enrolled: the new row, current enrollments + 1,
  quota) and the 500 of the \<open>catch\<close> block.
\<close>

datatype register_response =
    ValidationError
  | ActivityNotFound
  | RegistrationNotStarted
  | RegistrationEnded
  | AlreadyEnrolled
  | GradeRestriction
  | ScheduleConflict nat nat
  | Waitlisted int int int
  | Enrolled enrollment int int
  | EnrollmentFailed

text \<open>
  \<open>cancelEnrollment\<close> reads \<open>enrollment_id\<close>, \<open>student_id\<close> and \<open>reason\<close> from the
  body; the two identifiers are taken as given numbers. Its responses: 404, the success
  response with the \<open>waitlist_promoted\<close> value (the promoted student and the promotion
  time, or null), and the 500 of the \<open>catch\<close> block.
\<close>

record cancel_request =
  cq_enrollment :: nat
  cq_student :: nat
  cq_reason :: "string option"

datatype cancel_response =
    EnrollmentNotFound
  | Cancelled "(nat \<times> int) option"
  | CancelFailed

section \<open>Interval overlap\<close>

text \<open>
  The condition both conflict queries of \<open>registerStudent\<close> put on a target schedule
  \<open>(ts, te)\<close> and another schedule \<open>(s, e)\<close> of the same day:
  \<^verbatim>\<open>(target.start >= s AND target.start < e) OR (target.end > s AND target.end <= e)
   OR (target.start <= s AND target.end >= e)\<close>
\<close>

definition overlap3 :: "int \<Rightarrow> int \<Rightarrow> int \<Rightarrow> int \<Rightarrow> bool" where
  "overlap3 ts te s e =
     ((s \<le> ts \<and> ts < e) \<or> (s < te \<and> te \<le> e) \<or> (ts \<le> s \<and> e \<le> te))"

text \<open>The rule of the specification, written from its words: half-open intervals.\<close>

definition spec_overlap :: "int \<Rightarrow> int \<Rightarrow> int \<Rightarrow> int \<Rightarrow> bool" where
  "spec_overlap sa ea sb eb = (sa < eb \<and> sb < ea)"

section \<open>Statements against the store\<close>

text \<open>AUTO_INCREMENT: a new row gets an identifier above every stored one.\<close>

definition fresh_id :: "nat list \<Rightarrow> nat" where
  "fresh_id ids = Suc (fold max ids 0)"

text \<open>
  Query 1 of \<open>registerStudent\<close>: the activity with the given id and status
  \<open>'active'\<close>, together with \<open>COUNT(ae.id)\<close> over the left join with the enrollments
  of that activity whose status is \<open>'active'\<close>. The first row is used.
\<close>

definition current_enrollments :: "db \<Rightarrow> nat \<Rightarrow> int" where
  "current_enrollments d aid =
     int (length (filter (\<lambda>ae. enr_activity ae = aid \<and> enr_status ae = ''active'')
                         (enrollments d)))"

definition activityQuery :: "db \<Rightarrow> nat \<Rightarrow> (activity \<times> int) option" where
  "activityQuery d aid =
     (case filter (\<lambda>a. act_id a = aid \<and> act_status a = ActActive) (activities d) of
        [] \<Rightarrow> None
      | a # _ \<Rightarrow> Some (a, current_enrollments d (act_id a)))"

text \<open>
  Query 3: \<^verbatim>\<open>WHERE student_id = ? AND activity_id = ? AND status IN ('active', 'enrolled')\<close>.
\<close>

definition existingEnrollmentQuery :: "db \<Rightarrow> nat \<Rightarrow> nat \<Rightarrow> enrollment list" where
  "existingEnrollmentQuery d sid aid =
     filter (\<lambda>e. enr_student e = sid \<and> enr_activity e = aid
                  \<and> (enr_status e = ''active'' \<or> enr_status e = ''enrolled''))
            (enrollments d)"

text \<open>
  Query 6, the time-slot conflict query. Its rows are the triples of the join
  \<open>activity_enrollments ae JOIN activities a ON ae.activity_id = a.id
   JOIN activity_schedules asch ON a.id = asch.activity_id\<close> (the left join with the
  venues only adds a display name) that pass the \<open>WHERE\<close> clause. The parameters are
  bound as \<open>[student_id, activity_id, activity_id]\<close>: the first to \<open>ae.student_id\<close>,
  the second inside the \<open>asch.id IN (SELECT id ...)\<close> subquery, the third inside the
  \<open>EXISTS\<close> subquery.
\<close>

definition time_conflict_row ::
  "db \<Rightarrow> nat \<Rightarrow> nat \<Rightarrow> enrollment \<Rightarrow> activity \<Rightarrow> schedule \<Rightarrow> bool" where
  "time_conflict_row d sid aid ae a asch =
     (enr_activity ae = act_id a \<and> act_id a = sch_activity asch
      \<and> enr_student ae = sid
      \<and> enr_status ae = ''active''
      \<and> act_status a = ActActive
      \<and> sch_active asch
      \<and> sch_id asch \<in> set (map sch_id
           (filter (\<lambda>s. sch_activity s = aid \<and> sch_active s) (schedules d)))
      \<and> list_ex (\<lambda>target_sch.
             sch_activity target_sch = aid
           \<and> sch_active target_sch
           \<and> sch_day target_sch = sch_day asch
           \<and> overlap3 (sch_start target_sch) (sch_end target_sch)
                       (sch_start asch) (sch_end asch)) (schedules d))"

definition timeConflictQuery :: "db \<Rightarrow> nat \<Rightarrow> nat \<Rightarrow> (enrollment \<times> activity \<times> schedule) list" where
  "timeConflictQuery d sid aid =
     concat (map (\<lambda>ae. concat (map (\<lambda>a. concat (map (\<lambda>asch.
       if time_conflict_row d sid aid ae a asch then [(ae, a, asch)] else [])
       (schedules d))) (activities d))) (enrollments d))"

text \<open>
  Query 7, the venue query: pairs of a target schedule and a schedule of another active
  activity at the same venue on the same day, overlapping in time. A hit is only
  written to the console (\<open>console.warn\<close>) and never changes the response or the store.
\<close>

definition venue_conflict_row :: "nat \<Rightarrow> schedule \<Rightarrow> schedule \<Rightarrow> activity \<Rightarrow> bool" where
  "venue_conflict_row aid target_sch asch a =
     (sch_venue target_sch \<noteq> None \<and> sch_venue asch = sch_venue target_sch
      \<and> sch_activity asch \<noteq> sch_activity target_sch
      \<and> sch_day asch = sch_day target_sch
      \<and> sch_active asch
      \<and> sch_activity asch = act_id a \<and> act_status a = ActActive
      \<and> sch_activity target_sch = aid
      \<and> sch_active target_sch
      \<and> overlap3 (sch_start target_sch) (sch_end target_sch)
                  (sch_start asch) (sch_end asch))"

definition venueConflictQuery :: "db \<Rightarrow> nat \<Rightarrow> (schedule \<times> schedule \<times> activity) list" where
  "venueConflictQuery d aid =
     take 1 (concat (map (\<lambda>target_sch. concat (map (\<lambda>asch. concat (map (\<lambda>a.
       if venue_conflict_row aid target_sch asch a then [(target_sch, asch, a)] else [])
       (activities d))) (schedules d))) (schedules d)))"

text \<open>
  \<open>INSERT INTO activity_enrollments\<close>: the statement raises a duplicate-key error
  (\<open>None\<close>) when a row with the same student and activity is stored, whatever its
  status; otherwise the row is appended under a fresh id.
\<close>

definition insertEnrollment ::
  "db \<Rightarrow> nat \<Rightarrow> nat \<Rightarrow> int option \<Rightarrow> nat option \<Rightarrow> string option \<Rightarrow> (enrollment \<times> db) option" where
  "insertEnrollment d sid aid grade by_user notes =
     (if list_ex (\<lambda>e. enr_student e = sid \<and> enr_activity e = aid) (enrollments d)
      then None
      else let row = \<lparr> enr_id = fresh_id (map enr_id (enrollments d)),
                        enr_student = sid, enr_activity = aid, enr_status = ''active'',
                        enr_grade = grade, enr_enrolled_by = by_user, enr_notes = notes,
                        enr_cancelled_at = None, enr_cancellation_reason = None \<rparr>
           in Some (row, d\<lparr> enrollments := enrollments d @ [row] \<rparr>))"

text \<open>
  \<open>addToWaitlist\<close>: \<^verbatim>\<open>SELECT COALESCE(MAX(position), 0) + 1 ... WHERE activity_id = ? AND
  status = 'waiting'\<close>, then the insert with status \<open>'waiting'\<close>. The insert binds
  \<open>notes\<close> as it came from the body: \<open>connection.query\<close> is the driver's
  \<open>execute\<close>, which raises on an \<open>undefined\<close> bind value, so the function raises
  (\<open>None\<close>) when the key is absent. It also raises on the key \<open>unique_waitlist\<close>.
  Otherwise it returns the position.
\<close>

definition next_position :: "db \<Rightarrow> nat \<Rightarrow> int" where
  "next_position d aid =
     (case map wl_position
             (filter (\<lambda>w. wl_activity w = aid \<and> wl_status w = Waiting) (waitlist d)) of
        [] \<Rightarrow> 0
      | p # ps \<Rightarrow> fold max ps p) + 1"

definition bound_text :: "body_text \<Rightarrow> string option" where
  "bound_text x = (case x of Absent \<Rightarrow> None | JsonNull \<Rightarrow> None | Text t \<Rightarrow> Some t)"

definition addToWaitlist ::
  "db \<Rightarrow> nat \<Rightarrow> nat \<Rightarrow> int option \<Rightarrow> body_text \<Rightarrow> (int \<times> db) option" where
  "addToWaitlist d sid aid grade notes =
     (let position = next_position d aid
      in if notes = Absent then None
         else if list_ex (\<lambda>w. wl_student w = sid \<and> wl_activity w = aid) (waitlist d)
         then None
         else Some (position,
                d\<lparr> waitlist := waitlist d @
                     [\<lparr> wl_id = fresh_id (map wl_id (waitlist d)),
                        wl_student = sid, wl_activity = aid, wl_grade = grade,
                        wl_priority = 0, wl_position = position, wl_status = Waiting,
                        wl_promoted_at = None, wl_notes = bound_text notes \<rparr>] \<rparr>))"

text \<open>\<open>logEnrollmentConflict\<close> and \<open>logAudit\<close> append one row to their tables.\<close>

definition logEnrollmentConflict ::
  "db \<Rightarrow> nat \<Rightarrow> nat \<Rightarrow> nat option \<Rightarrow> conflict_type \<Rightarrow> nat option \<Rightarrow> db" where
  "logEnrollmentConflict d sid attempted conflicting ctype conflicting_schedule =
     d\<lparr> enrollment_conflicts := enrollment_conflicts d @
          [\<lparr> cf_student = sid, cf_attempted = attempted,
             cf_conflicting_activity = conflicting,
             cf_conflicting_schedule = conflicting_schedule, cf_type = ctype \<rparr>] \<rparr>"

definition logAudit :: "db \<Rightarrow> nat \<Rightarrow> string \<Rightarrow> string \<Rightarrow> nat \<Rightarrow> db" where
  "logAudit d user action entity_type entity =
     d\<lparr> audit_log := audit_log d @
          [\<lparr> au_user = user, au_action = action, au_entity_type = entity_type,
             au_entity = entity \<rparr>] \<rparr>"

section \<open>The waitlist manager\<close>

text \<open>
  \<open>promoteFromWaitlist\<close> reads
  \<^verbatim>\<open>SELECT * FROM activity_waitlist WHERE activity_id = ? AND status = 'waiting'
   ORDER BY priority DESC, position ASC LIMIT 1\<close>.
  \<open>earlier w v\<close> says that \<open>w\<close> sorts strictly before \<open>v\<close>; among rows equal in
  both columns MySQL may return any, and the model returns the one stored first.
\<close>

definition earlier :: "waitlist_entry \<Rightarrow> waitlist_entry \<Rightarrow> bool" where
  "earlier w v = (wl_priority v < wl_priority w
                 \<or> (wl_priority w = wl_priority v \<and> wl_position w < wl_position v))"

fun first_in_order :: "waitlist_entry list \<Rightarrow> waitlist_entry option" where
  "first_in_order [] = None"
| "first_in_order (w # ws) =
     (case first_in_order ws of
        None \<Rightarrow> Some w
      | Some v \<Rightarrow> if earlier v w then Some v else Some w)"

definition waiting_for :: "db \<Rightarrow> nat \<Rightarrow> waitlist_entry list" where
  "waiting_for d aid = filter (\<lambda>w. wl_activity w = aid \<and> wl_status w = Waiting) (waitlist d)"

definition waitlistQuery :: "db \<Rightarrow> nat \<Rightarrow> waitlist_entry option" where
  "waitlistQuery d aid = first_in_order (waiting_for d aid)"

definition mark_promoted :: "int \<Rightarrow> nat \<Rightarrow> waitlist_entry \<Rightarrow> waitlist_entry" where
  "mark_promoted now wid w =
     (if wl_id w = wid then w\<lparr> wl_status := Promoted, wl_promoted_at := Some now \<rparr> else w)"

text \<open>
  The result is \<open>None\<close> when a statement raises, otherwise the returned value (null, or
  the promoted student with the promotion time) and the store.
\<close>

definition promoteFromWaitlist :: "int \<Rightarrow> db \<Rightarrow> nat \<Rightarrow> ((nat \<times> int) option \<times> db) option" where
  "promoteFromWaitlist now d activity_id =
     (case waitlistQuery d activity_id of
        None \<Rightarrow> Some (None, d)
      | Some nextStudent \<Rightarrow>
          (case insertEnrollment d (wl_student nextStudent) activity_id
                  (wl_grade nextStudent) None (Some ''Promoted from waitlist'') of
             None \<Rightarrow> None
           | Some (row, d1) \<Rightarrow>
               Some (Some (wl_student nextStudent, now),
                     d1\<lparr> waitlist := map (mark_promoted now (wl_id nextStudent))
                                         (waitlist d1) \<rparr>)))"

section \<open>registerStudent\<close>

text \<open>
  \<open>parseInt(activity.quota || activity.max_students || 30)\<close>: a quota of 0 falls
  through to \<open>max_students\<close>, and that to 30 when it is null or 0.
\<close>

definition quota_of :: "activity \<Rightarrow> int" where
  "quota_of a =
     (if act_quota a = 0
      then (case act_max_students a of None \<Rightarrow> 30 | Some m \<Rightarrow> if m = 0 then 30 else m)
      else act_quota a)"

definition before_window :: "int \<Rightarrow> activity \<Rightarrow> bool" where
  "before_window now a =
     (case act_registration_start a of None \<Rightarrow> False | Some t \<Rightarrow> now < t)"

definition after_window :: "int \<Rightarrow> activity \<Rightarrow> bool" where
  "after_window now a =
     (case act_registration_end a of None \<Rightarrow> False | Some t \<Rightarrow> t < now)"

definition below_min_grade :: "int \<Rightarrow> activity \<Rightarrow> bool" where
  "below_min_grade grade_level a =
     (case act_min_grade a of None \<Rightarrow> False | Some m \<Rightarrow> m \<noteq> 0 \<and> grade_level < m)"

definition above_max_grade :: "int \<Rightarrow> activity \<Rightarrow> bool" where
  "above_max_grade grade_level a =
     (case act_max_grade a of None \<Rightarrow> False | Some m \<Rightarrow> m \<noteq> 0 \<and> m < grade_level)"

text \<open>\<open>x || null\<close> for an optional number and an optional string.\<close>

definition or_null :: "nat option \<Rightarrow> nat option" where
  "or_null x = (if falsy x then None else x)"

definition str_or_null :: "string option \<Rightarrow> string option" where
  "str_or_null x = (case x of None \<Rightarrow> None | Some s \<Rightarrow> if s = [] then None else Some s)"

definition text_or_null :: "body_text \<Rightarrow> string option" where
  "text_or_null x = str_or_null (bound_text x)"

text \<open>
  The transaction of \<open>registerStudent\<close>, steps 1 to 9 in source order. The insert of
  step 9 binds \<open>notes || null\<close>; \<open>addToWaitlist\<close> in step 8 gets \<open>notes\<close> as it
  is. Every error
  response is preceded by \<open>connection.rollback()\<close>, so it returns the store as it
  was at \<open>beginTransaction\<close>; the conflict log row written after a rollback is
  outside the transaction and stays. A raising statement reaches the \<open>catch\<close> block:
  rollback and response 500. Step 4 (age) has an empty body in the source, and step 7
  only warns on the console.
\<close>

definition register_transaction ::
  "int \<Rightarrow> nat \<Rightarrow> nat \<Rightarrow> int \<Rightarrow> nat option \<Rightarrow> body_text \<Rightarrow> db
     \<Rightarrow> register_response \<times> db" where
  "register_transaction now student_id activity_id grade_level enrolled_by notes d =
     (case activityQuery d activity_id of
        None \<Rightarrow> (ActivityNotFound, d)
      | Some (activity, current) \<Rightarrow>
          if before_window now activity then (RegistrationNotStarted, d)
          else if after_window now activity then (RegistrationEnded, d)
          else if existingEnrollmentQuery d student_id activity_id \<noteq> []
            then (AlreadyEnrolled, d)
          else if below_min_grade grade_level activity
            then (GradeRestriction,
                  logEnrollmentConflict d student_id activity_id None GradeRestrictionLog None)
          else if above_max_grade grade_level activity
            then (GradeRestriction,
                  logEnrollmentConflict d student_id activity_id None GradeRestrictionLog None)
          else (case timeConflictQuery d student_id activity_id of
             (ae, a, asch) # _ \<Rightarrow>
               (ScheduleConflict (act_id a) (sch_id asch),
                logEnrollmentConflict d student_id activity_id (Some (act_id a))
                  TimeOverlap (Some (sch_id asch)))
           | [] \<Rightarrow>
               (let currentCount = current; quota = quota_of activity
                in if quota \<le> currentCount
                   then (case addToWaitlist d student_id activity_id (Some grade_level) notes of
                           None \<Rightarrow> (EnrollmentFailed, d)
                         | Some (waitlistPosition, d1) \<Rightarrow>
                             (Waitlisted waitlistPosition currentCount quota,
                              logEnrollmentConflict d1 student_id activity_id None
                                QuotaFull None))
                   else (case insertEnrollment d student_id activity_id (Some grade_level)
                                (or_null enrolled_by) (text_or_null notes) of
                           None \<Rightarrow> (EnrollmentFailed, d)
                         | Some (row, d1) \<Rightarrow>
                             (Enrolled row (currentCount + 1) quota,
                              logAudit d1 student_id ''enrollment_created'' ''enrollment''
                                (enr_id row))))))"

definition registerStudent :: "int \<Rightarrow> register_request \<Rightarrow> db \<Rightarrow> register_response \<times> db" where
  "registerStudent now rq d =
     (if falsy (rq_student rq) \<or> falsy (rq_activity rq) \<or> falsy (rq_grade rq)
      then (ValidationError, d)
      else (case (rq_student rq, rq_activity rq, rq_grade rq) of
              (Some student_id, Some activity_id, Some grade_level) \<Rightarrow>
                register_transaction now student_id activity_id grade_level
                  (rq_enrolled_by rq) (rq_notes rq) d
            | _ \<Rightarrow> (ValidationError, d)))"

section \<open>cancelEnrollment\<close>

definition withdraw_row :: "int \<Rightarrow> nat \<Rightarrow> string option \<Rightarrow> enrollment \<Rightarrow> enrollment" where
  "withdraw_row now eid reason e =
     (if enr_id e = eid
      then e\<lparr> enr_status := ''withdrawn'', enr_cancelled_at := Some now,
              enr_cancellation_reason :=
                Some (case str_or_null reason of None \<Rightarrow> ''Student requested'' | Some r \<Rightarrow> r) \<rparr>
      else e)"

text \<open>
  The select reads \<^verbatim>\<open>WHERE id = ? AND student_id = ? AND status = 'active'\<close>
  (\<open>cancellable\<close>). The update
  and the promotion run in one transaction; when the promotion raises, the \<open>catch\<close>
  block rolls back to the store as it was and answers 500. The audit row is written
  after the commit.
\<close>

definition cancellable :: "cancel_request \<Rightarrow> enrollment \<Rightarrow> bool" where
  "cancellable cq e =
     (enr_id e = cq_enrollment cq \<and> enr_student e = cq_student cq
      \<and> enr_status e = ''active'')"

definition cancelEnrollment :: "int \<Rightarrow> cancel_request \<Rightarrow> db \<Rightarrow> cancel_response \<times> db" where
  "cancelEnrollment now cq d =
     (case filter (cancellable cq) (enrollments d) of
        [] \<Rightarrow> (EnrollmentNotFound, d)
      | enrollment # _ \<Rightarrow>
          (let activity_id = enr_activity enrollment;
               d1 = d\<lparr> enrollments :=
                         map (withdraw_row now (cq_enrollment cq) (cq_reason cq))
                             (enrollments d) \<rparr>
           in case promoteFromWaitlist now d1 activity_id of
                None \<Rightarrow> (CancelFailed, d)
              | Some (promoted, d2) \<Rightarrow>
                  (Cancelled promoted,
                   logAudit d2 (cq_student cq) ''enrollment_cancelled'' ''enrollment''
                     (cq_enrollment cq))))"

section \<open>The first enrollment controller\<close>

text \<open>
  \<open>enrollStudent\<close>, the controller behind \<open>POST /api/enrollments\<close>. It counts the
  \<open>'active'\<close> enrollments against \<open>max_students\<close> (with a null \<open>max_students\<close> the
  comparison with \<open>NaN\<close> is false), then rejects the request when any enrollment row
  of the student for the activity is stored, whatever its status.
\<close>

record enroll_request =
  eq_student :: "nat option"
  eq_activity :: "nat option"
  eq_notes :: "string option"

datatype enroll_response =
    EnrollValidationError
  | EnrollActivityNotFound
  | EnrollActivityFull
  | EnrollAlreadyEnrolled
  | EnrollCreated enrollment
  | EnrollError

definition enrollStudent :: "enroll_request \<Rightarrow> db \<Rightarrow> enroll_response \<times> db" where
  "enrollStudent rq d =
     (if falsy (eq_student rq) \<or> falsy (eq_activity rq) then (EnrollValidationError, d)
      else (case (eq_student rq, eq_activity rq) of
              (Some student_id, Some activity_id) \<Rightarrow>
                (case filter (\<lambda>a. act_id a = activity_id) (activities d) of
                   [] \<Rightarrow> (EnrollActivityNotFound, d)
                 | a # _ \<Rightarrow>
                     if (case act_max_students a of
                           None \<Rightarrow> False
                         | Some m \<Rightarrow> m \<le> current_enrollments d (act_id a))
                       then (EnrollActivityFull, d)
                     else if filter (\<lambda>e. enr_student e = student_id
                                          \<and> enr_activity e = activity_id) (enrollments d) \<noteq> []
                       then (EnrollAlreadyEnrolled, d)
                     else (case insertEnrollment d student_id activity_id None None
                                  (str_or_null (eq_notes rq)) of
                             None \<Rightarrow> (EnrollError, d)
                           | Some (row, d1) \<Rightarrow> (EnrollCreated row, d1)))
            | _ \<Rightarrow> (EnrollValidationError, d)))"

text \<open>
  The three single-statement operations of that controller on a stored enrollment:
  \<open>withdrawEnrollment\<close>, \<open>updateEnrollmentStatus\<close> (any of the five valid statuses,
  from any status) and \<open>deleteEnrollment\<close>. Each answers 404 when no row has the id.
\<close>

datatype basic_response = BadRequest | NotFound | Done

definition set_status :: "nat \<Rightarrow> string \<Rightarrow> enrollment \<Rightarrow> enrollment" where
  "set_status eid st e = (if enr_id e = eid then e\<lparr> enr_status := st \<rparr> else e)"

definition withdrawEnrollment :: "nat \<Rightarrow> db \<Rightarrow> basic_response \<times> db" where
  "withdrawEnrollment enrollmentId d =
     (if list_ex (\<lambda>e. enr_id e = enrollmentId) (enrollments d)
      then (Done, d\<lparr> enrollments := map (set_status enrollmentId ''withdrawn'') (enrollments d) \<rparr>)
      else (NotFound, d))"

definition validStatuses :: "string list" where
  "validStatuses = [''active'', ''approved'', ''rejected'', ''withdrawn'', ''completed'']"

definition updateEnrollmentStatus :: "nat \<Rightarrow> string option \<Rightarrow> db \<Rightarrow> basic_response \<times> db" where
  "updateEnrollmentStatus enrollmentId status d =
     (case str_or_null status of
        None \<Rightarrow> (BadRequest, d)
      | Some st \<Rightarrow>
          if st \<in> set validStatuses
          then (if list_ex (\<lambda>e. enr_id e = enrollmentId) (enrollments d)
                then (Done, d\<lparr> enrollments := map (set_status enrollmentId st) (enrollments d) \<rparr>)
                else (NotFound, d))
          else (BadRequest, d))"

definition deleteEnrollment :: "nat \<Rightarrow> db \<Rightarrow> basic_response \<times> db" where
  "deleteEnrollment enrollmentId d =
     (if list_ex (\<lambda>e. enr_id e = enrollmentId) (enrollments d)
      then (Done, d\<lparr> enrollments := filter (\<lambda>e. enr_id e \<noteq> enrollmentId) (enrollments d) \<rparr>)
      else (NotFound, d))"

section \<open>Reading responses and rows\<close>

definition is_Enrolled :: "register_response \<Rightarrow> bool" where
  "is_Enrolled r = (case r of Enrolled row n q \<Rightarrow> True | _ \<Rightarrow> False)"

definition is_Cancelled :: "cancel_response \<Rightarrow> bool" where
  "is_Cancelled r = (case r of Cancelled p \<Rightarrow> True | _ \<Rightarrow> False)"

text \<open>The row \<open>promoteFromWaitlist\<close> inserts for a waitlist entry.\<close>

definition promoted_row :: "db \<Rightarrow> waitlist_entry \<Rightarrow> nat \<Rightarrow> enrollment" where
  "promoted_row d w aid =
     \<lparr> enr_id = fresh_id (map enr_id (enrollments d)),
       enr_student = wl_student w, enr_activity = aid, enr_status = ''active'',
       enr_grade = wl_grade w, enr_enrolled_by = None,
       enr_notes = Some ''Promoted from waitlist'',
       enr_cancelled_at = None, enr_cancellation_reason = None \<rparr>"

section \<open>Reachable stores\<close>

text \<open>
  The stores the controllers can produce: starting with an empty enrollment table (and
  any activities, schedules and waitlist), every request to one of the six operations
  that write \<open>activity_enrollments\<close> leads to the store it returns.
\<close>

inductive reachable :: "db \<Rightarrow> bool" where
  r_start: "enrollments d = [] \<Longrightarrow> reachable d"
| r_register: "reachable d \<Longrightarrow> reachable (snd (registerStudent now rq d))"
| r_cancel: "reachable d \<Longrightarrow> reachable (snd (cancelEnrollment now cq d))"
| r_enroll: "reachable d \<Longrightarrow> reachable (snd (enrollStudent eq d))"
| r_withdraw: "reachable d \<Longrightarrow> reachable (snd (withdrawEnrollment eid d))"
| r_update: "reachable d \<Longrightarrow> reachable (snd (updateEnrollmentStatus eid st d))"
| r_delete: "reachable d \<Longrightarrow> reachable (snd (deleteEnrollment eid d))"

text \<open>The key \<open>unique_enrollment\<close> as a predicate on the store.\<close>

definition unique_enrollment :: "db \<Rightarrow> bool" where
  "unique_enrollment d =
     distinct (map (\<lambda>e. (enr_student e, enr_activity e)) (enrollments d))"

text \<open>The enrollment rows of one (student, activity) pair.\<close>

definition rows_of :: "db \<Rightarrow> nat \<Rightarrow> nat \<Rightarrow> enrollment list" where
  "rows_of d sid aid =
     filter (\<lambda>e. enr_student e = sid \<and> enr_activity e = aid) (enrollments d)"

text \<open>The rows of a pair whose status is active or approved.\<close>

definition live_rows :: "db \<Rightarrow> nat \<Rightarrow> nat \<Rightarrow> enrollment list" where
  "live_rows d sid aid =
     filter (\<lambda>e. enr_status e = ''active'' \<or> enr_status e = ''approved'') (rows_of d sid aid)"

text \<open>
  The count the specification's Capacity Gate describes, written from its words:
  the enrollments of the activity with status active or approved.
\<close>

definition spec_active_count :: "db \<Rightarrow> nat \<Rightarrow> int" where
  "spec_active_count d aid =
     int (length (filter (\<lambda>e. enr_activity e = aid
                             \<and> (enr_status e = ''active'' \<or> enr_status e = ''approved''))
                         (enrollments d)))"

section \<open>Example stores\<close>

text \<open>
  Three activities with one Monday schedule each: activity 1 at 16:00 to 17:00,
  activity 2 at 16:30 to 17:30, activity 3 at 17:00 to 18:00 (times in seconds since
  midnight), all active with quota 30 and no restrictions.
\<close>

definition ex_activity :: "nat \<Rightarrow> int \<Rightarrow> activity" where
  "ex_activity i q =
     \<lparr> act_id = i, act_status = ActActive, act_quota = q, act_max_students = Some 30,
       act_min_grade = Some 1, act_max_grade = Some 12,
       act_registration_start = None, act_registration_end = None \<rparr>"

definition ex_schedule :: "nat \<Rightarrow> nat \<Rightarrow> int \<Rightarrow> int \<Rightarrow> schedule" where
  "ex_schedule i a s e =
     \<lparr> sch_id = i, sch_activity = a, sch_venue = None, sch_day = Monday,
       sch_start = s, sch_end = e, sch_active = True \<rparr>"

definition ex_request :: "nat \<Rightarrow> nat \<Rightarrow> register_request" where
  "ex_request s a =
     \<lparr> rq_student = Some s, rq_activity = Some a, rq_grade = Some 5,
       rq_enrolled_by = None, rq_notes = Absent \<rparr>"

text \<open>The same request with \<open>notes: null\<close> in the body.\<close>

definition ex_request_null :: "nat \<Rightarrow> nat \<Rightarrow> register_request" where
  "ex_request_null s a = (ex_request s a)\<lparr> rq_notes := JsonNull \<rparr>"

definition timetable_db :: db where
  "timetable_db =
     \<lparr> activities = [ex_activity 1 30, ex_activity 2 30, ex_activity 3 30],
       enrollments = [],
       schedules = [ex_schedule 1 1 57600 61200, ex_schedule 2 2 59400 63000,
                    ex_schedule 3 3 61200 64800],
       waitlist = [], enrollment_conflicts = [], audit_log = [] \<rparr>"

text \<open>Student 7 registers for activity 1 in the timetable store.\<close>

definition timetable_enrolled :: db where
  "timetable_enrolled = snd (registerStudent 0 (ex_request 7 1) timetable_db)"

text \<open>One activity with a single seat, and nothing stored yet.\<close>

definition one_seat_db :: db where
  "one_seat_db =
     \<lparr> activities = [ex_activity 1 1], enrollments = [], schedules = [],
       waitlist = [], enrollment_conflicts = [], audit_log = [] \<rparr>"

text \<open>
  Student 7 registers and takes the seat; the coach then approves the enrollment
  (enrollment 1), setting its status to \<open>'approved'\<close>.
\<close>

definition one_seat_taken :: db where
  "one_seat_taken = snd (registerStudent 0 (ex_request 7 1) one_seat_db)"

definition one_seat_approved :: db where
  "one_seat_approved = snd (updateEnrollmentStatus 1 (Some ''approved'') one_seat_taken)"

definition one_seat_full :: db where
  "one_seat_full = snd (registerStudent 0 (ex_request 8 1) one_seat_approved)"

text \<open>
  With the seat taken by student 7, student 8 registers (with \<open>notes: null\<close>) and is
  put on the waitlist.
\<close>

definition one_seat_waiting :: db where
  "one_seat_waiting = snd (registerStudent 0 (ex_request_null 8 1) one_seat_taken)"

text \<open>
  Student 7 cancels enrollment 1 at time 5; student 8 then takes the free seat, and
  student 7 registers again (with \<open>notes: null\<close>) and is put on the waitlist.
\<close>

definition ex_cancel :: "nat \<Rightarrow> nat \<Rightarrow> cancel_request" where
  "ex_cancel e s = \<lparr> cq_enrollment = e, cq_student = s, cq_reason = None \<rparr>"

definition one_seat_withdrawn :: db where
  "one_seat_withdrawn = snd (cancelEnrollment 5 (ex_cancel 1 7) one_seat_taken)"

definition one_seat_retaken :: db where
  "one_seat_retaken = snd (registerStudent 6 (ex_request 8 1) one_seat_withdrawn)"

definition one_seat_requeued :: db where
  "one_seat_requeued = snd (registerStudent 7 (ex_request_null 7 1) one_seat_retaken)"

text \<open>
  From \<open>one_seat_waiting\<close>: student 7 cancels at time 5, which promotes student 8
  into enrollment 2; student 8 then cancels that enrollment at time 6.
\<close>

definition one_seat_promoted :: db where
  "one_seat_promoted = snd (cancelEnrollment 5 (ex_cancel 1 7) one_seat_waiting)"

definition one_seat_left :: db where
  "one_seat_left = snd (cancelEnrollment 6 (ex_cancel 2 8) one_seat_promoted)"

text \<open>
  A waitlist for activity 1 with students 11 (priority 0), 12 (priority 5) and
  13 (priority 0), queued in that order, and student 7 holding the single seat.
\<close>

definition ex_waiting :: "nat \<Rightarrow> nat \<Rightarrow> int \<Rightarrow> int \<Rightarrow> waitlist_entry" where
  "ex_waiting i s prio pos =
     \<lparr> wl_id = i, wl_student = s, wl_activity = 1, wl_grade = Some 5, wl_priority = prio,
       wl_position = pos, wl_status = Waiting, wl_promoted_at = None, wl_notes = None \<rparr>"

definition priority_db :: db where
  "priority_db =
     one_seat_taken\<lparr> waitlist := [ex_waiting 1 11 0 1, ex_waiting 2 12 5 2, ex_waiting 3 13 0 3] \<rparr>"

section \<open>The overlap condition\<close>

text \<open>
  C5. For two intervals of the same day that each start before they end, the three-case
  condition of the queries holds exactly when the half-open rule of the specification
  holds; and two intervals where one ends at the instant the other starts satisfy
  neither condition.
\<close>

theorem overlap3_iff_spec_overlap:
  assumes "sa < ea" and "sb < eb"
  shows "(overlap3 sa ea sb eb \<longleftrightarrow> spec_overlap sa ea sb eb)
       \<and> (if ea = sb \<or> eb = sa
          then \<not> overlap3 sa ea sb eb \<and> \<not> spec_overlap sa ea sb eb else True)"
  using assms unfolding overlap3_def spec_overlap_def by auto

theorem overlap3_iff_spec_overlap_witness:
  "overlap3 57600 61200 59400 63000 \<and> spec_overlap 57600 61200 59400 63000
   \<and> \<not> overlap3 57600 61200 61200 64800 \<and> \<not> spec_overlap 57600 61200 61200 64800"
  using overlap3_iff_spec_overlap [of 57600 61200 59400 63000]
        overlap3_iff_spec_overlap [of 57600 61200 61200 64800]
  by (simp add: spec_overlap_def)

section \<open>Facts about the statements\<close>

lemma fold_max_ge: "(a::nat) \<le> fold max xs a"
  by (induction xs arbitrary: a) (auto intro: order_trans [OF max.cobounded2])

lemma fold_max_mem: "x \<in> set xs \<Longrightarrow> (x::nat) \<le> fold max xs a"
proof (induction xs arbitrary: a)
  case Nil
  then show ?case by simp
next
  case (Cons y ys)
  show ?case
  proof (cases "x = y")
    case True
    have "y \<le> max y a" by simp
    also have "\<dots> \<le> fold max ys (max y a)" by (rule fold_max_ge)
    finally show ?thesis using True by simp
  next
    case False
    with Cons show ?thesis by simp
  qed
qed

lemma fresh_id_above: "x \<in> set ids \<Longrightarrow> x < fresh_id ids"
  unfolding fresh_id_def using fold_max_mem [of x ids 0] by simp

lemma list_ex_rows_of:
  "list_ex (\<lambda>e. enr_student e = sid \<and> enr_activity e = aid) (enrollments d)
     \<longleftrightarrow> rows_of d sid aid \<noteq> []"
  by (auto simp: rows_of_def list_ex_iff filter_empty_conv)

lemma insertEnrollment_None:
  "insertEnrollment d sid aid g b n = None \<longleftrightarrow> rows_of d sid aid \<noteq> []"
  by (simp add: insertEnrollment_def list_ex_rows_of Let_def)

lemma insertEnrollment_Some:
  assumes "insertEnrollment d sid aid g b n = Some (row, d1)"
  shows "d1 = d\<lparr> enrollments := enrollments d @ [row] \<rparr>"
    and "enr_student row = sid" and "enr_activity row = aid"
    and "enr_status row = ''active''"
    and "enr_id row = fresh_id (map enr_id (enrollments d))"
    and "rows_of d sid aid = []"
  using assms
  by (auto simp: insertEnrollment_def list_ex_rows_of Let_def split: if_splits)

lemma insertEnrollment_unique:
  assumes "insertEnrollment d sid aid g b n = Some (row, d1)" and "unique_enrollment d"
  shows "unique_enrollment d1"
proof -
  note f = insertEnrollment_Some [OF assms(1)]
  have "(sid, aid) \<notin> set (map (\<lambda>e. (enr_student e, enr_activity e)) (enrollments d))"
    using f(6) by (auto simp: rows_of_def filter_empty_conv)
  then show ?thesis using assms(2) f(1,2,3) by (simp add: unique_enrollment_def)
qed

lemma pairs_withdraw_row:
  "(\<lambda>e. (enr_student e, enr_activity e)) \<circ> withdraw_row now eid r
   = (\<lambda>e. (enr_student e, enr_activity e))"
  by (auto simp: fun_eq_iff withdraw_row_def)

lemma pairs_set_status:
  "(\<lambda>e. (enr_student e, enr_activity e)) \<circ> set_status eid st
   = (\<lambda>e. (enr_student e, enr_activity e))"
  by (auto simp: fun_eq_iff set_status_def)

lemma promoteFromWaitlist_unique:
  assumes "promoteFromWaitlist now d aid = Some (p, d2)" and "unique_enrollment d"
  shows "unique_enrollment d2"
  using assms insertEnrollment_unique
  by (fastforce simp: promoteFromWaitlist_def unique_enrollment_def
      split: option.splits prod.splits)

lemma addToWaitlist_enrollments:
  "addToWaitlist d sid aid g n = Some (pos, d1) \<Longrightarrow> enrollments d1 = enrollments d"
  by (auto simp: addToWaitlist_def Let_def split: if_splits)

lemma register_transaction_unique:
  assumes "unique_enrollment d"
  shows "unique_enrollment (snd (register_transaction now sid aid g b n d))"
  using assms insertEnrollment_unique addToWaitlist_enrollments
  by (fastforce simp: register_transaction_def unique_enrollment_def Let_def
      logEnrollmentConflict_def logAudit_def
      split: option.splits prod.splits list.splits)

lemma registerStudent_unique:
  "unique_enrollment d \<Longrightarrow> unique_enrollment (snd (registerStudent now rq d))"
  by (auto simp: registerStudent_def register_transaction_unique split: option.splits)

lemma cancelEnrollment_unique:
  assumes "unique_enrollment d"
  shows "unique_enrollment (snd (cancelEnrollment now cq d))"
proof -
  let ?d1 = "d\<lparr> enrollments := map (withdraw_row now (cq_enrollment cq) (cq_reason cq))
                                     (enrollments d) \<rparr>"
  have u1: "unique_enrollment ?d1"
    using assms by (simp add: unique_enrollment_def pairs_withdraw_row)
  show ?thesis
    using assms promoteFromWaitlist_unique [OF _ u1]
    by (auto simp: cancelEnrollment_def Let_def logAudit_def unique_enrollment_def
        split: list.splits option.splits)
qed

lemma enrollStudent_unique:
  "unique_enrollment d \<Longrightarrow> unique_enrollment (snd (enrollStudent rq d))"
  using insertEnrollment_unique
  by (fastforce simp: enrollStudent_def split: option.splits list.splits prod.splits)

lemma withdrawEnrollment_unique:
  "unique_enrollment d \<Longrightarrow> unique_enrollment (snd (withdrawEnrollment eid d))"
  by (simp add: withdrawEnrollment_def unique_enrollment_def pairs_set_status)

lemma updateEnrollmentStatus_unique:
  "unique_enrollment d \<Longrightarrow> unique_enrollment (snd (updateEnrollmentStatus eid st d))"
  by (simp add: updateEnrollmentStatus_def unique_enrollment_def pairs_set_status
      split: option.splits)

lemma deleteEnrollment_unique:
  "unique_enrollment d \<Longrightarrow> unique_enrollment (snd (deleteEnrollment eid d))"
  by (simp add: deleteEnrollment_def unique_enrollment_def distinct_map_filter)

lemma reachable_unique: "reachable d \<Longrightarrow> unique_enrollment d"
proof (induction rule: reachable.induct)
  case (r_start d)
  then show ?case by (simp add: unique_enrollment_def)
qed (simp_all add: registerStudent_unique cancelEnrollment_unique enrollStudent_unique
      withdrawEnrollment_unique updateEnrollmentStatus_unique deleteEnrollment_unique)

lemma unique_rows_of: "unique_enrollment d \<Longrightarrow> length (rows_of d sid aid) \<le> 1"
proof -
  assume u: "unique_enrollment d"
  have "distinct (map (\<lambda>e. (enr_student e, enr_activity e)) (rows_of d sid aid))"
    using u unfolding unique_enrollment_def rows_of_def by (rule distinct_map_filter)
  moreover have "set (map (\<lambda>e. (enr_student e, enr_activity e)) (rows_of d sid aid)) \<subseteq> {(sid, aid)}"
    by (auto simp: rows_of_def)
  ultimately have "length (map (\<lambda>e. (enr_student e, enr_activity e)) (rows_of d sid aid)) \<le> card {(sid, aid)}"
    by (metis card_mono distinct_card finite.emptyI finite.insertI)
  then show ?thesis by simp
qed

lemma earlier_asym: "earlier v x \<Longrightarrow> \<not> earlier x v"
  unfolding earlier_def by linarith

lemma not_earlier_trans: "\<not> earlier u v \<Longrightarrow> \<not> earlier v x \<Longrightarrow> \<not> earlier u x"
  unfolding earlier_def by linarith

lemma first_in_order_None: "first_in_order ws = None \<longleftrightarrow> ws = []"
  by (induction ws) (auto split: option.splits)

lemma first_in_order_Some:
  "first_in_order ws = Some w \<Longrightarrow> w \<in> set ws \<and> (\<forall>v\<in>set ws. \<not> earlier v w)"
proof (induction ws arbitrary: w)
  case Nil
  then show ?case by simp
next
  case (Cons x xs)
  show ?case
  proof (cases "first_in_order xs")
    case None
    then have "xs = []" by (simp only: first_in_order_None)
    with Cons.prems have "w = x" by simp
    with \<open>xs = []\<close> show ?thesis using earlier_asym by auto
  next
    case (Some v)
    note ih = Cons.IH [OF Some]
    show ?thesis
    proof (cases "earlier v x")
      case True
      with Some Cons.prems have "w = v" by simp
      moreover have "\<not> earlier x v" using True by (rule earlier_asym)
      ultimately show ?thesis using ih by simp
    next
      case False
      with Some Cons.prems have wx: "w = x" by simp
      have "\<not> earlier x x" using earlier_asym by blast
      moreover have "\<not> earlier u x" if "u \<in> set xs" for u
        using ih that False not_earlier_trans by blast
      ultimately show ?thesis using wx by simp
    qed
  qed
qed

lemma waitlistQuery_None: "waitlistQuery d aid = None \<longleftrightarrow> waiting_for d aid = []"
  by (simp add: waitlistQuery_def first_in_order_None)

lemma promoteFromWaitlist_eq:
  "promoteFromWaitlist now d aid =
     (case waitlistQuery d aid of
        None \<Rightarrow> Some (None, d)
      | Some w \<Rightarrow>
          if rows_of d (wl_student w) aid = []
          then Some (Some (wl_student w, now),
                     d\<lparr> enrollments := enrollments d @ [promoted_row d w aid],
                        waitlist := map (mark_promoted now (wl_id w)) (waitlist d) \<rparr>)
          else None)"
  by (auto simp: promoteFromWaitlist_def insertEnrollment_def list_ex_rows_of Let_def
      promoted_row_def split: option.splits)

lemma withdraw_row_pair:
  "enr_student (withdraw_row now eid r e) = enr_student e"
  "enr_activity (withdraw_row now eid r e) = enr_activity e"
  by (simp_all add: withdraw_row_def)

lemma withdraw_row_id: "enr_id (withdraw_row now eid r e) = enr_id e"
  by (simp add: withdraw_row_def)

lemma ids_withdraw_row: "enr_id \<circ> withdraw_row now eid r = enr_id"
  by (auto simp: fun_eq_iff withdraw_row_def)

lemma rows_of_withdrawn:
  "rows_of (d\<lparr> enrollments := map (withdraw_row now eid r) (enrollments d) \<rparr>) sid aid
     = map (withdraw_row now eid r) (rows_of d sid aid)"
  by (simp add: rows_of_def filter_map comp_def withdraw_row_pair)

lemma cancelEnrollment_eq:
  "cancelEnrollment now cq d =
     (case filter (cancellable cq) (enrollments d) of
        [] \<Rightarrow> (EnrollmentNotFound, d)
      | e # _ \<Rightarrow>
          (case waitlistQuery d (enr_activity e) of
             None \<Rightarrow>
               (Cancelled None,
                logAudit (d\<lparr> enrollments :=
                              map (withdraw_row now (cq_enrollment cq) (cq_reason cq))
                                  (enrollments d) \<rparr>)
                  (cq_student cq) ''enrollment_cancelled'' ''enrollment'' (cq_enrollment cq))
           | Some w \<Rightarrow>
               if rows_of d (wl_student w) (enr_activity e) = []
               then (Cancelled (Some (wl_student w, now)),
                     logAudit (d\<lparr> enrollments :=
                                   map (withdraw_row now (cq_enrollment cq) (cq_reason cq))
                                       (enrollments d)
                                   @ [promoted_row d w (enr_activity e)],
                                 waitlist := map (mark_promoted now (wl_id w)) (waitlist d) \<rparr>)
                       (cq_student cq) ''enrollment_cancelled'' ''enrollment''
                       (cq_enrollment cq))
               else (CancelFailed, d)))"
  by (auto simp: cancelEnrollment_def promoteFromWaitlist_eq Let_def waitlistQuery_def
      waiting_for_def rows_of_withdrawn promoted_row_def ids_withdraw_row
      split: list.splits option.splits)

lemma activityQuery_Some:
  assumes "activityQuery d aid = Some (a, c)"
  shows "act_id a = aid" and "c = current_enrollments d aid" and "act_status a = ActActive"
    and "a \<in> set (activities d)"
proof -
  from assms obtain rest where f: "filter (\<lambda>a. act_id a = aid \<and> act_status a = ActActive)
      (activities d) = a # rest" and c: "c = current_enrollments d (act_id a)"
    by (auto simp: activityQuery_def split: list.splits)
  from f have "a \<in> set (filter (\<lambda>a. act_id a = aid \<and> act_status a = ActActive) (activities d))"
    by simp
  then show "act_id a = aid" "act_status a = ActActive" "a \<in> set (activities d)" by auto
  with c show "c = current_enrollments d aid" by simp
qed

lemma existing_of_rows: "rows_of d sid aid = [] \<Longrightarrow> existingEnrollmentQuery d sid aid = []"
  by (auto simp: rows_of_def existingEnrollmentQuery_def filter_empty_conv)

text \<open>The transaction once the checks of steps 1 to 7 have passed.\<close>

lemma register_transaction_gate:
  assumes "activityQuery d aid = Some (a, c)"
    and "\<not> before_window now a" "\<not> after_window now a"
    and "existingEnrollmentQuery d sid aid = []"
    and "\<not> below_min_grade g a" "\<not> above_max_grade g a"
    and "timeConflictQuery d sid aid = []"
  shows "register_transaction now sid aid g b n d =
     (if quota_of a \<le> c
      then (case addToWaitlist d sid aid (Some g) n of
              None \<Rightarrow> (EnrollmentFailed, d)
            | Some (pos, d1) \<Rightarrow>
                (Waitlisted pos c (quota_of a),
                 logEnrollmentConflict d1 sid aid None QuotaFull None))
      else (case insertEnrollment d sid aid (Some g) (or_null b) (text_or_null n) of
              None \<Rightarrow> (EnrollmentFailed, d)
            | Some (row, d1) \<Rightarrow>
                (Enrolled row (c + 1) (quota_of a),
                 logAudit d1 sid ''enrollment_created'' ''enrollment'' (enr_id row))))"
  using assms by (simp add: register_transaction_def Let_def)

lemma registerStudent_fields:
  assumes "rq_student rq = Some sid" "rq_activity rq = Some aid" "rq_grade rq = Some g"
    and "sid \<noteq> 0" "aid \<noteq> 0" "g \<noteq> 0"
  shows "registerStudent now rq d =
           register_transaction now sid aid g (rq_enrolled_by rq) (rq_notes rq) d"
  using assms by (simp add: registerStudent_def falsy_def)


lemma mark_promoted_only:
  assumes "distinct (map wl_id ws)" and "w \<in> set ws"
  shows "map (mark_promoted now (wl_id w)) ws =
         map (\<lambda>v. if v = w then v\<lparr> wl_status := Promoted, wl_promoted_at := Some now \<rparr> else v) ws"
    and "length (filter (\<lambda>v. v = w) ws) = 1"
proof -
  from assms(1) have inj: "inj_on wl_id (set ws)" and dist: "distinct ws"
    by (simp_all add: distinct_map)
  have "wl_id v = wl_id w \<longleftrightarrow> v = w" if "v \<in> set ws" for v
    using inj that assms(2) by (auto dest: inj_onD)
  then show "map (mark_promoted now (wl_id w)) ws =
         map (\<lambda>v. if v = w then v\<lparr> wl_status := Promoted, wl_promoted_at := Some now \<rparr> else v) ws"
    by (simp add: mark_promoted_def)
  have "{x. x = w} \<inter> set ws = {w}" using assms(2) by auto
  then show "length (filter (\<lambda>v. v = w) ws) = 1"
    using distinct_length_filter [OF dist, of "\<lambda>v. v = w"] by simp
qed

lemma cancellable_in_filter:
  "filter (cancellable cq) es = e # rest \<Longrightarrow> e \<in> set es \<and> cancellable cq e"
proof -
  assume "filter (cancellable cq) es = e # rest"
  then have "e \<in> set (filter (cancellable cq) es)" by simp
  then show ?thesis by simp
qed

lemma withdrawn_rows:
  assumes "e' \<in> set (map (withdraw_row now eid r) es)" and "enr_id e' = eid"
  shows "enr_status e' = ''withdrawn'' \<and> enr_cancelled_at e' = Some now
         \<and> enr_cancellation_reason e' \<noteq> None"
proof -
  from assms(1) obtain e where e: "e' = withdraw_row now eid r e" by auto
  with assms(2) have "enr_id e = eid" by (simp add: withdraw_row_id)
  with e show ?thesis by (simp add: withdraw_row_def)
qed

lemma promoted_row_id:
  assumes "e \<in> set (enrollments d)"
  shows "enr_id (promoted_row d w aid) \<noteq> enr_id e"
proof -
  have "enr_id e \<in> set (map enr_id (enrollments d))" using assms by simp
  from fresh_id_above [OF this] show ?thesis by (simp add: promoted_row_def)
qed

lemma cancelEnrollment_not_found:
  assumes "filter (cancellable cq) (enrollments d) = []"
  shows "cancelEnrollment now cq d = (EnrollmentNotFound, d)"
  by (simp add: cancelEnrollment_eq assms)

lemma cancelEnrollment_no_waiting:
  assumes "filter (cancellable cq) (enrollments d) = e # rest"
    and "waitlistQuery d (enr_activity e) = None"
  shows "cancelEnrollment now cq d =
     (Cancelled None,
      logAudit (d\<lparr> enrollments :=
                    map (withdraw_row now (cq_enrollment cq) (cq_reason cq)) (enrollments d) \<rparr>)
        (cq_student cq) ''enrollment_cancelled'' ''enrollment'' (cq_enrollment cq))"
  by (simp add: cancelEnrollment_eq assms)

lemma cancelEnrollment_promotion_fails:
  assumes "filter (cancellable cq) (enrollments d) = e # rest"
    and "waitlistQuery d (enr_activity e) = Some w"
    and "rows_of d (wl_student w) (enr_activity e) \<noteq> []"
  shows "cancelEnrollment now cq d = (CancelFailed, d)"
  by (simp add: cancelEnrollment_eq assms)

lemma cancelEnrollment_promotes:
  assumes "filter (cancellable cq) (enrollments d) = e # rest"
    and "waitlistQuery d (enr_activity e) = Some w"
    and "rows_of d (wl_student w) (enr_activity e) = []"
  shows "cancelEnrollment now cq d =
     (Cancelled (Some (wl_student w, now)),
      logAudit (d\<lparr> enrollments :=
                    map (withdraw_row now (cq_enrollment cq) (cq_reason cq)) (enrollments d)
                    @ [promoted_row d w (enr_activity e)],
                  waitlist := map (mark_promoted now (wl_id w)) (waitlist d) \<rparr>)
        (cq_student cq) ''enrollment_cancelled'' ''enrollment'' (cq_enrollment cq))"
  by (simp add: cancelEnrollment_eq assms)

lemma filter_id_single:
  assumes "distinct (map enr_id es)" and "e \<in> set es"
  shows "filter (\<lambda>x. enr_id x = enr_id e) es = [e]"
  using assms
proof (induction es)
  case Nil
  then show ?case by simp
next
  case (Cons x xs)
  show ?case
  proof (cases "x = e")
    case True
    with Cons.prems(1) have "enr_id e \<notin> enr_id ` set xs" by simp
    then have "\<forall>y\<in>set xs. enr_id y \<noteq> enr_id e" by (metis imageI)
    then have "filter (\<lambda>x. enr_id x = enr_id e) xs = []" by (simp add: filter_empty_conv)
    with True show ?thesis by simp
  next
    case False
    with Cons.prems have mem: "e \<in> set xs" and d: "distinct (map enr_id xs)" by auto
    from Cons.prems(1) mem have "enr_id x \<noteq> enr_id e" by auto
    with Cons.IH [OF d mem] show ?thesis by simp
  qed
qed

lemma filter_cancellable_single:
  assumes "distinct (map enr_id es)" and "e \<in> set es" and "cancellable cq e"
  shows "filter (cancellable cq) es = [e]"
proof -
  have "filter (cancellable cq) es =
        filter (cancellable cq) (filter (\<lambda>x. enr_id x = enr_id e) es)"
    using assms(3) by (auto simp: cancellable_def intro: filter_cong)
  also have "\<dots> = [e]" using assms by (simp add: filter_id_single)
  finally show ?thesis .
qed

lemma filter_id_withdrawn:
  "filter (\<lambda>x. enr_id x = eid) (map (withdraw_row now eid r) es)
     = map (withdraw_row now eid r) (filter (\<lambda>x. enr_id x = eid) es)"
  by (simp add: filter_map comp_def withdraw_row_id)

lemma register_transaction_Enrolled:
  assumes "register_transaction now sid aid g b nt d = (Enrolled e n q, d1)"
  shows "insertEnrollment d sid aid (Some g) (or_null b) (text_or_null nt)
           = Some (e, d\<lparr> enrollments := enrollments d @ [e] \<rparr>)
         \<and> d1 = logAudit (d\<lparr> enrollments := enrollments d @ [e] \<rparr>) sid
                  ''enrollment_created'' ''enrollment'' (enr_id e)"
proof -
  from assms obtain a c where act: "activityQuery d aid = Some (a, c)"
    by (cases "activityQuery d aid") (auto simp: register_transaction_def)
  from assms act have checks: "\<not> before_window now a" "\<not> after_window now a"
      "existingEnrollmentQuery d sid aid = []"
      "\<not> below_min_grade g a" "\<not> above_max_grade g a"
    by (auto simp: register_transaction_def split: if_splits)
  from assms act checks have tc: "timeConflictQuery d sid aid = []"
    by (cases "timeConflictQuery d sid aid") (auto simp: register_transaction_def)
  note eq = register_transaction_gate [OF act checks tc, of b nt]
  from assms eq have nf: "\<not> quota_of a \<le> c"
    by (auto split: option.splits)
  with assms eq obtain d' where ins: "insertEnrollment d sid aid (Some g) (or_null b)
      (text_or_null nt) = Some (e, d')"
    and d1: "d1 = logAudit d' sid ''enrollment_created'' ''enrollment'' (enr_id e)"
    by (auto split: option.splits)
  from insertEnrollment_Some(1) [OF ins] ins d1 show ?thesis by simp
qed

lemma registerStudent_Enrolled:
  assumes "registerStudent now rq d = (Enrolled e n q, d1)"
    and "rq_student rq = Some sid" "rq_activity rq = Some aid"
  shows "enrollments d1 = enrollments d @ [e]" and "waitlist d1 = waitlist d"
    and "enr_student e = sid" and "enr_activity e = aid" and "enr_status e = ''active''"
    and "enr_id e = fresh_id (map enr_id (enrollments d))"
proof -
  from assms obtain g where
    "register_transaction now sid aid g (rq_enrolled_by rq) (rq_notes rq) d
       = (Enrolled e n q, d1)"
    by (auto simp: registerStudent_def split: if_splits option.splits)
  note t = register_transaction_Enrolled [OF this]
  note f = insertEnrollment_Some [OF conjunct1 [OF t]]
  from t show "enrollments d1 = enrollments d @ [e]" "waitlist d1 = waitlist d"
    by (simp_all add: logAudit_def)
  from f show "enr_student e = sid" "enr_activity e = aid" "enr_status e = ''active''"
    "enr_id e = fresh_id (map enr_id (enrollments d))" by simp_all
qed

lemma registerStudent_existing_row:
  assumes "rows_of d sid aid \<noteq> []"
    and "rq_student rq = Some sid" "rq_activity rq = Some aid"
  shows "\<not> is_Enrolled (fst (registerStudent now rq d))"
    and "enrollments (snd (registerStudent now rq d)) = enrollments d"
proof -
  show n: "\<not> is_Enrolled (fst (registerStudent now rq d))"
  proof
    assume "is_Enrolled (fst (registerStudent now rq d))"
    then obtain e n q d1 where "registerStudent now rq d = (Enrolled e n q, d1)"
      by (cases "registerStudent now rq d", cases "fst (registerStudent now rq d)")
         (auto simp: is_Enrolled_def)
    then obtain g where
      "register_transaction now sid aid g (rq_enrolled_by rq) (rq_notes rq) d
         = (Enrolled e n q, d1)"
      using assms(2,3) by (auto simp: registerStudent_def split: if_splits option.splits)
    from insertEnrollment_Some(6) [OF conjunct1 [OF register_transaction_Enrolled [OF this]]]
    show False using assms(1) by simp
  qed
  have "enrollments (snd (register_transaction now sid aid g b nt d)) = enrollments d
        \<or> is_Enrolled (fst (register_transaction now sid aid g b nt d))" for g b nt
    using addToWaitlist_enrollments [of d sid aid "Some g" nt]
    by (auto simp: register_transaction_def Let_def logEnrollmentConflict_def is_Enrolled_def
        split: option.splits list.splits prod.splits)
  then show "enrollments (snd (registerStudent now rq d)) = enrollments d"
    using n assms(2,3) by (auto simp: registerStudent_def split: if_splits option.splits)
qed

lemma enrollStudent_existing_row:
  assumes "rows_of d sid aid \<noteq> []"
  shows "snd (enrollStudent \<lparr> eq_student = Some sid, eq_activity = Some aid, eq_notes = nt \<rparr> d)
         = d"
  using assms
  by (auto simp: enrollStudent_def rows_of_def insertEnrollment_def list_ex_iff
      filter_empty_conv split: list.splits option.splits)

lemma rows_of_append:
  "rows_of (d\<lparr> enrollments := xs @ ys \<rparr>) sid aid
     = filter (\<lambda>e. enr_student e = sid \<and> enr_activity e = aid) xs
       @ filter (\<lambda>e. enr_student e = sid \<and> enr_activity e = aid) ys"
  by (simp add: rows_of_def)

lemma filter_pair_withdrawn:
  "filter (\<lambda>e. enr_student e = sid \<and> enr_activity e = aid) (map (withdraw_row now eid r) es)
     = map (withdraw_row now eid r)
         (filter (\<lambda>e. enr_student e = sid \<and> enr_activity e = aid) es)"
  by (simp add: filter_map comp_def withdraw_row_pair)

lemma filter_cancellable_fresh:
  assumes "enr_id e = fresh_id (map enr_id es)" and "cancellable cq e"
  shows "filter (cancellable cq) (es @ [e]) = [e]"
proof -
  have "\<not> cancellable cq x" if "x \<in> set es" for x
  proof -
    from that have "enr_id x \<in> set (map enr_id es)" by simp
    from fresh_id_above [OF this] assms show ?thesis by (simp add: cancellable_def)
  qed
  then have "filter (cancellable cq) es = []" by (simp add: filter_empty_conv)
  with assms(2) show ?thesis by simp
qed

section \<open>Evaluating the example stores\<close>

lemmas eval_defs = registerStudent_def register_transaction_def activityQuery_def
  current_enrollments_def existingEnrollmentQuery_def timeConflictQuery_def time_conflict_row_def
  insertEnrollment_def addToWaitlist_def next_position_def logEnrollmentConflict_def
  logAudit_def quota_of_def before_window_def after_window_def below_min_grade_def
  above_max_grade_def or_null_def str_or_null_def text_or_null_def bound_text_def
  falsy_def fresh_id_def overlap3_def
  ex_activity_def ex_schedule_def ex_request_def ex_request_null_def
  cancelEnrollment_def cancellable_def ex_cancel_def ex_waiting_def promoteFromWaitlist_def waitlistQuery_def waiting_for_def
  mark_promoted_def withdraw_row_def earlier_def
  updateEnrollmentStatus_def validStatuses_def set_status_def rows_of_def Let_def

lemma timetable_enrolled_eq:
  "timetable_enrolled =
     timetable_db\<lparr> enrollments :=
        [\<lparr> enr_id = 1, enr_student = 7, enr_activity = 1, enr_status = ''active'',
           enr_grade = Some 5, enr_enrolled_by = None, enr_notes = None,
           enr_cancelled_at = None, enr_cancellation_reason = None \<rparr>],
       audit_log := [\<lparr> au_user = 7, au_action = ''enrollment_created'',
           au_entity_type = ''enrollment'', au_entity = 1 \<rparr> ] \<rparr>"
  by (simp add: timetable_enrolled_def timetable_db_def eval_defs)


lemma timetable_enrolled_reachable: "reachable timetable_enrolled"
  unfolding timetable_enrolled_def
  by (rule r_register, rule r_start) (simp add: timetable_db_def)

lemma one_seat_approved_reachable: "reachable one_seat_approved"
  unfolding one_seat_approved_def one_seat_taken_def
  by (rule r_update, rule r_register, rule r_start) (simp add: one_seat_db_def)

lemma one_seat_full_reachable: "reachable one_seat_full"
  unfolding one_seat_full_def by (rule r_register) (rule one_seat_approved_reachable)

lemma one_seat_taken_eq:
  "one_seat_taken =
     one_seat_db\<lparr> enrollments :=
        [\<lparr> enr_id = 1, enr_student = 7, enr_activity = 1, enr_status = ''active'',
           enr_grade = Some 5, enr_enrolled_by = None, enr_notes = None,
           enr_cancelled_at = None, enr_cancellation_reason = None \<rparr>],
       audit_log := [\<lparr> au_user = 7, au_action = ''enrollment_created'',
           au_entity_type = ''enrollment'', au_entity = 1 \<rparr> ] \<rparr>"
  by (simp add: one_seat_taken_def one_seat_db_def eval_defs)

lemma one_seat_requeued_reachable: "reachable one_seat_requeued"
  unfolding one_seat_requeued_def one_seat_retaken_def one_seat_withdrawn_def one_seat_taken_def
  by (rule r_register, rule r_register, rule r_cancel, rule r_register, rule r_start)
     (simp add: one_seat_db_def)

lemma one_seat_taken_ids: "distinct (map enr_id (enrollments one_seat_taken))"
  by (simp add: one_seat_taken_eq)

section \<open>Required fields\<close>

text \<open>
  C10. A request to \<open>registerStudent\<close> in which \<open>student_id\<close>, \<open>activity_id\<close> or
  \<open>grade_level\<close> is missing is answered with the validation error (status 400), and
  the store is returned as it was: no table is read or written.
\<close>

theorem registerStudent_requires_fields:
  assumes "rq_student rq = None \<or> rq_activity rq = None \<or> rq_grade rq = None"
  shows "registerStudent now rq d = (ValidationError, d)"
  using assms by (auto simp: registerStudent_def falsy_def)

theorem registerStudent_requires_fields_witness:
  "rq_grade ((ex_request 7 1)\<lparr> rq_grade := None \<rparr>) = None
   \<and> registerStudent 0 ((ex_request 7 1)\<lparr> rq_grade := None \<rparr>) timetable_db
     = (ValidationError, timetable_db)"
  using registerStudent_requires_fields
          [of "(ex_request 7 1)\<lparr> rq_grade := None \<rparr>" 0 timetable_db]
  by simp

section \<open>The time-slot conflict check\<close>

text \<open>
  The conflict query of step 6 keeps a joined schedule only when its id is among the
  ids of the target activity's schedules. Schedule ids are a primary key, so the joined
  enrollment is an active enrollment of the student in the target activity itself, and
  step 3 has already answered such a request. The query is therefore empty whenever
  it runs, and \<open>registerStudent\<close> never answers with a schedule conflict.
\<close>

lemma time_conflict_row_target:
  assumes ids: "distinct (map sch_id (schedules d))"
    and asch: "asch \<in> set (schedules d)"
    and row: "time_conflict_row d sid aid ae a asch"
  shows "enr_student ae = sid \<and> enr_activity ae = aid \<and> enr_status ae = ''active''"
proof -
  from row have "sch_id asch \<in> sch_id ` {s \<in> set (schedules d). sch_activity s = aid}"
    unfolding time_conflict_row_def by auto
  then obtain s where s: "s \<in> set (schedules d)" "sch_activity s = aid"
    "sch_id s = sch_id asch" by auto
  from ids have "inj_on sch_id (set (schedules d))" by (simp add: distinct_map)
  with s(1,3) asch have "s = asch" by (auto dest: inj_onD)
  with s(2) row show ?thesis unfolding time_conflict_row_def by simp
qed

lemma timeConflictQuery_empty:
  assumes ids: "distinct (map sch_id (schedules d))"
    and none: "existingEnrollmentQuery d sid aid = []"
  shows "timeConflictQuery d sid aid = []"
proof -
  have "\<not> time_conflict_row d sid aid ae a asch"
    if "ae \<in> set (enrollments d)" "asch \<in> set (schedules d)" for ae a asch
    using time_conflict_row_target [OF ids that(2)] none that(1)
    by (auto simp: existingEnrollmentQuery_def filter_empty_conv)
  then show ?thesis
    by (simp add: timeConflictQuery_def)
qed

lemma registerStudent_no_ScheduleConflict:
  assumes "distinct (map sch_id (schedules d))"
  shows "fst (registerStudent now rq d) \<noteq> ScheduleConflict x y"
  using timeConflictQuery_empty [OF assms]
  by (auto simp: registerStudent_def register_transaction_def Let_def
      split: option.splits prod.splits list.splits)

text \<open>
  C1. In the timetable store student 7 holds an active enrollment in activity 1
  (Monday 16:00 to 17:00) and registers for activity 2 (Monday 16:30 to 17:30). The two
  schedules overlap, yet the conflict query returns no row and the student is enrolled.
\<close>

theorem registerStudent_overlap_undetected:
  "map enr_status (rows_of timetable_enrolled 7 1) = [''active'']
   \<and> spec_overlap 59400 63000 57600 61200
   \<and> timeConflictQuery timetable_enrolled 7 2 = []
   \<and> fst (registerStudent 0 (ex_request 7 2) timetable_enrolled) =
       Enrolled \<lparr> enr_id = 2, enr_student = 7, enr_activity = 2, enr_status = ''active'',
                  enr_grade = Some 5, enr_enrolled_by = None, enr_notes = None,
                  enr_cancelled_at = None, enr_cancellation_reason = None \<rparr> 1 30"
  by (simp add: timetable_enrolled_eq timetable_db_def eval_defs spec_overlap_def)

section \<open>One row per student and activity\<close>

lemma live_rows_le: "unique_enrollment d \<Longrightarrow> length (live_rows d sid aid) \<le> 1"
  using unique_rows_of [of d sid aid]
  by (auto simp: live_rows_def intro: order_trans [OF length_filter_le])

lemma registerStudent_active_row:
  assumes row: "list_ex (\<lambda>e. enr_status e = ''active'') (rows_of d sid aid)"
    and rq: "rq_student rq = Some sid" "rq_activity rq = Some aid"
  shows "snd (registerStudent now rq d) = d"
    and "\<not> falsy (rq_student rq) \<Longrightarrow> \<not> falsy (rq_activity rq) \<Longrightarrow> \<not> falsy (rq_grade rq)
         \<Longrightarrow> activityQuery d aid = Some (a, c) \<Longrightarrow> \<not> before_window now a
         \<Longrightarrow> \<not> after_window now a \<Longrightarrow> registerStudent now rq d = (AlreadyEnrolled, d)"
proof -
  have ex: "existingEnrollmentQuery d sid aid \<noteq> []"
    using row by (auto simp: existingEnrollmentQuery_def rows_of_def list_ex_iff filter_empty_conv)
  show "snd (registerStudent now rq d) = d"
    using ex rq
    by (auto simp: registerStudent_def register_transaction_def split: option.splits)
  show "registerStudent now rq d = (AlreadyEnrolled, d)"
    if "\<not> falsy (rq_student rq)" "\<not> falsy (rq_activity rq)" "\<not> falsy (rq_grade rq)"
      "activityQuery d aid = Some (a, c)" "\<not> before_window now a" "\<not> after_window now a"
    using ex rq that
    by (auto simp: registerStudent_def register_transaction_def falsy_def
        split: option.splits)
qed

text \<open>
  In every reachable store a (student, activity) pair has at most one enrollment whose
  status is active or approved: the table's key admits one row per pair. And when the
  student already has an enrollment with status \<open>'active'\<close> for the activity,
  \<open>registerStudent\<close> leaves the whole store as it was, so no enrollment row and no
  waitlist entry is created; when the request carries its three fields, the activity is
  found and the registration window is open, the answer is AlreadyEnrolled.
\<close>

theorem uniqueness_invariant:
  assumes "reachable d"
  shows "length (live_rows d sid aid) \<le> 1
       \<and> (list_ex (\<lambda>e. enr_status e = ''active'') (rows_of d sid aid)
            \<and> rq_student rq = Some sid \<and> rq_activity rq = Some aid
          \<longrightarrow> snd (registerStudent now rq d) = d
              \<and> (\<not> falsy (rq_student rq) \<and> \<not> falsy (rq_activity rq) \<and> \<not> falsy (rq_grade rq)
                   \<and> activityQuery d aid = Some (a, c)
                   \<and> \<not> before_window now a \<and> \<not> after_window now a
                 \<longrightarrow> registerStudent now rq d = (AlreadyEnrolled, d)))"
  using live_rows_le [OF reachable_unique [OF assms]] registerStudent_active_row
  by blast

theorem uniqueness_invariant_witness:
  "reachable timetable_enrolled
   \<and> list_ex (\<lambda>e. enr_status e = ''active'') (rows_of timetable_enrolled 7 1)
   \<and> activityQuery timetable_enrolled 1 = Some (ex_activity 1 30, 1)
   \<and> length (live_rows timetable_enrolled 7 1) \<le> 1
   \<and> registerStudent 0 (ex_request 7 1) timetable_enrolled
       = (AlreadyEnrolled, timetable_enrolled)"
proof -
  have h: "list_ex (\<lambda>e. enr_status e = ''active'') (rows_of timetable_enrolled 7 1)"
      "activityQuery timetable_enrolled 1 = Some (ex_activity 1 30, 1)"
    by (simp_all add: timetable_enrolled_eq timetable_db_def eval_defs)
  show ?thesis
    using uniqueness_invariant [OF timetable_enrolled_reachable, of 7 1 "ex_request 7 1"
            0 "ex_activity 1 30" 1] h timetable_enrolled_reachable
    by (simp add: ex_request_def falsy_def before_window_def after_window_def ex_activity_def)
qed

text \<open>
  C2. The query of step 3 reads \<open>status IN ('active', 'enrolled')\<close>. No operation
  writes the status \<open>'enrolled'\<close> (see \<open>validStatuses\<close>), and \<open>'approved'\<close> is not
  in the list, so an approved enrollment is not seen. In the reachable store
  \<open>one_seat_full\<close> student 7 holds the approved enrollment 1 of activity 1 and
  student 8 the single counted seat: student 7 registers again with \<open>notes: null\<close>
  and is put on the waitlist; without a \<open>notes\<close> key the same request passes step 3
  as well and ends in the 500 of the \<open>catch\<close> block. In \<open>one_seat_approved\<close>, where
  the count is still below the quota, the request runs into the key of the table and
  is answered with the 500 too. In no case is the answer AlreadyEnrolled.
\<close>

theorem registerStudent_approved_not_rejected:
  "reachable one_seat_full
   \<and> map enr_status (rows_of one_seat_full 7 1) = [''approved'']
   \<and> existingEnrollmentQuery one_seat_full 7 1 = []
   \<and> fst (registerStudent 0 (ex_request_null 7 1) one_seat_full) = Waitlisted 1 1 1
   \<and> map wl_student (waitlist one_seat_full) = []
   \<and> map wl_student (waitlist (snd (registerStudent 0 (ex_request_null 7 1) one_seat_full)))
       = [7]
   \<and> registerStudent 0 (ex_request 7 1) one_seat_full = (EnrollmentFailed, one_seat_full)
   \<and> map enr_status (rows_of one_seat_approved 7 1) = [''approved'']
   \<and> registerStudent 0 (ex_request 7 1) one_seat_approved
       = (EnrollmentFailed, one_seat_approved)"
proof -
  have "map enr_status (rows_of one_seat_full 7 1) = [''approved'']"
    "existingEnrollmentQuery one_seat_full 7 1 = []"
    "fst (registerStudent 0 (ex_request_null 7 1) one_seat_full) = Waitlisted 1 1 1"
    "map wl_student (waitlist one_seat_full) = []"
    "map wl_student (waitlist (snd (registerStudent 0 (ex_request_null 7 1) one_seat_full)))
       = [7]"
    "registerStudent 0 (ex_request 7 1) one_seat_full = (EnrollmentFailed, one_seat_full)"
    "map enr_status (rows_of one_seat_approved 7 1) = [''approved'']"
    "registerStudent 0 (ex_request 7 1) one_seat_approved
       = (EnrollmentFailed, one_seat_approved)"
    by code_simp+
  then show ?thesis using one_seat_full_reachable by simp
qed

section \<open>The capacity gate\<close>

text \<open>
  C3, as amended. For an existing active activity, the count of query 1 is the number
  of the activity's enrollments with status \<open>'active'\<close> (approved enrollments are not
  counted), and the capacity is \<open>quota_of\<close>. A request that has passed the checks of
  steps 2 to 7 is answered with a new active enrollment exactly when the count is below
  the capacity and the student has no enrollment row for the activity; in every other
  case, in particular when the count has reached the capacity, the enrollment table is
  left as it was.
\<close>

theorem capacity_gate:
  assumes rq: "rq_student rq = Some sid" "rq_activity rq = Some aid" "rq_grade rq = Some g"
      "sid \<noteq> 0" "aid \<noteq> 0" "g \<noteq> 0"
    and act: "activityQuery d aid = Some (a, c)"
    and checks: "\<not> before_window now a" "\<not> after_window now a"
      "existingEnrollmentQuery d sid aid = []"
      "\<not> below_min_grade g a" "\<not> above_max_grade g a"
      "timeConflictQuery d sid aid = []"
  shows "c = int (length (filter (\<lambda>e. enr_activity e = aid \<and> enr_status e = ''active'')
                               (enrollments d)))
       \<and> (is_Enrolled (fst (registerStudent now rq d))
            \<longleftrightarrow> c < quota_of a \<and> rows_of d sid aid = [])
       \<and> (if is_Enrolled (fst (registerStudent now rq d))
          then map (\<lambda>e. (enr_student e, enr_activity e, enr_status e))
                   (enrollments (snd (registerStudent now rq d)))
               = map (\<lambda>e. (enr_student e, enr_activity e, enr_status e)) (enrollments d)
                 @ [(sid, aid, ''active'')]
          else enrollments (snd (registerStudent now rq d)) = enrollments d)"
proof -
  note eq = registerStudent_fields [OF rq, of now d]
    register_transaction_gate [OF act checks, of "rq_enrolled_by rq" "rq_notes rq"]
  have c: "c = int (length (filter (\<lambda>e. enr_activity e = aid \<and> enr_status e = ''active'')
                               (enrollments d)))"
    using activityQuery_Some(2) [OF act] by (simp add: current_enrollments_def)
  show ?thesis
  proof (cases "quota_of a \<le> c")
    case True
    show ?thesis
    proof (cases "addToWaitlist d sid aid (Some g) (rq_notes rq)")
      case None
      with True have "registerStudent now rq d = (EnrollmentFailed, d)"
        by (simp add: eq)
      with True c show ?thesis by (simp add: is_Enrolled_def)
    next
      case (Some p)
      obtain pos d1 where p: "p = (pos, d1)" by (cases p)
      from Some p True have "registerStudent now rq d =
          (Waitlisted pos c (quota_of a), logEnrollmentConflict d1 sid aid None QuotaFull None)"
        by (simp add: eq)
      moreover have "enrollments d1 = enrollments d"
        using Some p by (simp add: addToWaitlist_enrollments)
      ultimately show ?thesis
        using True c by (simp add: is_Enrolled_def logEnrollmentConflict_def)
    qed
  next
    case False
    show ?thesis
    proof (cases "insertEnrollment d sid aid (Some g) (or_null (rq_enrolled_by rq))
                    (text_or_null (rq_notes rq))")
      case None
      then have "rows_of d sid aid \<noteq> []" by (simp add: insertEnrollment_None)
      moreover from None False have "registerStudent now rq d = (EnrollmentFailed, d)"
        by (simp add: eq)
      ultimately show ?thesis using c by (simp add: is_Enrolled_def)
    next
      case (Some p)
      obtain row d1 where p: "p = (row, d1)" by (cases p)
      note f = insertEnrollment_Some [OF Some [unfolded p]]
      from Some p False have "registerStudent now rq d =
          (Enrolled row (c + 1) (quota_of a),
           logAudit d1 sid ''enrollment_created'' ''enrollment'' (enr_id row))"
        by (simp add: eq)
      then show ?thesis
        using False c f by (simp add: is_Enrolled_def logAudit_def)
    qed
  qed
qed

theorem capacity_gate_witness:
  "activityQuery one_seat_db 1 = Some (ex_activity 1 1, 0)
   \<and> quota_of (ex_activity 1 1) = 1
   \<and> rows_of one_seat_db 7 1 = []
   \<and> is_Enrolled (fst (registerStudent 0 (ex_request 7 1) one_seat_db))
   \<and> map (\<lambda>e. (enr_student e, enr_activity e, enr_status e))
         (enrollments (snd (registerStudent 0 (ex_request 7 1) one_seat_db)))
       = [(7, 1, ''active'')]"
proof -
  have h: "activityQuery one_seat_db 1 = Some (ex_activity 1 1, 0)"
      "\<not> before_window 0 (ex_activity 1 1)" "\<not> after_window 0 (ex_activity 1 1)"
      "existingEnrollmentQuery one_seat_db 7 1 = []"
      "\<not> below_min_grade 5 (ex_activity 1 1)" "\<not> above_max_grade 5 (ex_activity 1 1)"
      "timeConflictQuery one_seat_db 7 1 = []"
    by (simp_all add: one_seat_db_def eval_defs)
  have r: "rq_student (ex_request 7 1) = Some 7" "rq_activity (ex_request 7 1) = Some 1"
      "rq_grade (ex_request 7 1) = Some 5" "(7::nat) \<noteq> 0" "(1::nat) \<noteq> 0" "(5::int) \<noteq> 0"
    by (simp_all add: ex_request_def)
  have q: "quota_of (ex_activity 1 1) = 1" "rows_of one_seat_db 7 1 = []"
      "enrollments one_seat_db = []"
    by (simp_all add: one_seat_db_def eval_defs)
  show ?thesis
    using capacity_gate [OF r h] h(1) q by auto
qed

text \<open>
  The claim as stated counts approved enrollments. In \<open>one_seat_approved\<close> the only
  seat of activity 1 is held by an approved enrollment, the count of query 1 is 0, and
  student 8 is enrolled directly.
\<close>

theorem capacity_gate_approved_counterexample:
  "activityQuery one_seat_approved 1 = Some (ex_activity 1 1, 0)
   \<and> quota_of (ex_activity 1 1) = 1
   \<and> spec_active_count one_seat_approved 1 = 1
   \<and> is_Enrolled (fst (registerStudent 0 (ex_request 8 1) one_seat_approved))
   \<and> map enr_status (enrollments (snd (registerStudent 0 (ex_request 8 1) one_seat_approved)))
       = [''approved'', ''active'']"
  by code_simp

section \<open>Waitlisting on a full activity\<close>




section \<open>Promotion from the waitlist\<close>

text \<open>
  C4, as amended. With waitlist ids distinct (the primary key): when no entry of the
  activity is waiting, \<open>promoteFromWaitlist\<close> returns null and the store as it was.
  Otherwise it selects a waiting entry of the activity that has the highest priority
  and, among those, the lowest position. When the selected student has no enrollment
  row for the activity, it appends one enrollment with status active for that student
  and marks that entry, and no other, as promoted at the current time; when the student
  has such a row, the insert violates the key \<open>unique_enrollment\<close> and the function
  raises.
\<close>

theorem promoteFromWaitlist_selection:
  assumes ids: "distinct (map wl_id (waitlist d))"
  shows "if waiting_for d aid = []
         then promoteFromWaitlist now d aid = Some (None, d)
         else (\<exists>w. waitlistQuery d aid = Some w
                 \<and> w \<in> set (waitlist d) \<and> wl_activity w = aid \<and> wl_status w = Waiting
                 \<and> (\<forall>v\<in>set (waiting_for d aid).
                       wl_priority v \<le> wl_priority w
                       \<and> (wl_priority v = wl_priority w \<longrightarrow> wl_position w \<le> wl_position v))
                 \<and> length (filter (\<lambda>v. v = w) (waitlist d)) = 1
                 \<and> (if rows_of d (wl_student w) aid = []
                    then (\<exists>row. enr_student row = wl_student w \<and> enr_activity row = aid
                            \<and> enr_status row = ''active''
                            \<and> promoteFromWaitlist now d aid =
                                Some (Some (wl_student w, now),
                                  d\<lparr> enrollments := enrollments d @ [row],
                                     waitlist := map (\<lambda>v. if v = w
                                         then v\<lparr> wl_status := Promoted,
                                                 wl_promoted_at := Some now \<rparr>
                                         else v) (waitlist d) \<rparr>))
                    else promoteFromWaitlist now d aid = None))"
proof (cases "waiting_for d aid = []")
  case True
  then show ?thesis by (simp add: promoteFromWaitlist_eq waitlistQuery_None [THEN iffD2])
next
  case False
  then obtain w where q: "waitlistQuery d aid = Some w"
    using waitlistQuery_None [of d aid] by (cases "waitlistQuery d aid") auto
  note sel = first_in_order_Some [OF q [unfolded waitlistQuery_def]]
  from sel have mem: "w \<in> set (waitlist d)" "wl_activity w = aid" "wl_status w = Waiting"
    by (auto simp: waiting_for_def)
  have best: "wl_priority v \<le> wl_priority w
              \<and> (wl_priority v = wl_priority w \<longrightarrow> wl_position w \<le> wl_position v)"
    if "v \<in> set (waiting_for d aid)" for v
    using sel that by (auto simp: earlier_def)
  note one = mark_promoted_only [OF ids mem(1)]
  have "enr_student (promoted_row d w aid) = wl_student w"
    "enr_activity (promoted_row d w aid) = aid" "enr_status (promoted_row d w aid) = ''active''"
    by (simp_all add: promoted_row_def)
  then have row: "rows_of d (wl_student w) aid = [] \<Longrightarrow>
      \<exists>row. enr_student row = wl_student w \<and> enr_activity row = aid
            \<and> enr_status row = ''active''
            \<and> promoteFromWaitlist now d aid =
                Some (Some (wl_student w, now),
                  d\<lparr> enrollments := enrollments d @ [row],
                     waitlist := map (\<lambda>v. if v = w
                         then v\<lparr> wl_status := Promoted, wl_promoted_at := Some now \<rparr>
                         else v) (waitlist d) \<rparr>)"
    using q one(1) [of now] by (auto simp: promoteFromWaitlist_eq)
  have fail: "rows_of d (wl_student w) aid \<noteq> [] \<Longrightarrow> promoteFromWaitlist now d aid = None"
    using q by (simp add: promoteFromWaitlist_eq)
  show ?thesis
    using False q mem best one(2) row fail by auto
qed

theorem promoteFromWaitlist_selection_witness:
  "distinct (map wl_id (waitlist priority_db))
   \<and> map (\<lambda>w. (wl_student w, wl_priority w, wl_position w)) (waiting_for priority_db 1)
       = [(11, 0, 1), (12, 5, 2), (13, 0, 3)]
   \<and> rows_of priority_db 12 1 = []
   \<and> waitlistQuery priority_db 1 = Some (ex_waiting 2 12 5 2)
   \<and> map_option fst (promoteFromWaitlist 9 priority_db 1) = Some (Some (12, 9))
   \<and> map_option (\<lambda>r. map (\<lambda>w. (wl_student w, wl_status w)) (waitlist (snd r)))
        (promoteFromWaitlist 9 priority_db 1)
       = Some [(11, Waiting), (12, Promoted), (13, Waiting)]
   \<and> map_option (\<lambda>r. map (\<lambda>e. (enr_student e, enr_status e)) (enrollments (snd r)))
        (promoteFromWaitlist 9 priority_db 1)
       = Some [(7, ''active''), (12, ''active'')]
   \<and> map_option (\<lambda>r. map_option wl_student (waitlistQuery (snd r) 1))
        (promoteFromWaitlist 9 priority_db 1)
       = Some (Some 11)"
proof -
  have h: "distinct (map wl_id (waitlist priority_db))"
    by code_simp
  have e: "map (\<lambda>w. (wl_student w, wl_priority w, wl_position w)) (waiting_for priority_db 1)
       = [(11, 0, 1), (12, 5, 2), (13, 0, 3)]"
    "rows_of priority_db 12 1 = []"
    "waitlistQuery priority_db 1 = Some (ex_waiting 2 12 5 2)"
    "map_option fst (promoteFromWaitlist 9 priority_db 1) = Some (Some (12, 9))"
    "map_option (\<lambda>r. map (\<lambda>w. (wl_student w, wl_status w)) (waitlist (snd r)))
        (promoteFromWaitlist 9 priority_db 1)
       = Some [(11, Waiting), (12, Promoted), (13, Waiting)]"
    "map_option (\<lambda>r. map (\<lambda>e. (enr_student e, enr_status e)) (enrollments (snd r)))
        (promoteFromWaitlist 9 priority_db 1)
       = Some [(7, ''active''), (12, ''active'')]"
    "map_option (\<lambda>r. map_option wl_student (waitlistQuery (snd r) 1))
        (promoteFromWaitlist 9 priority_db 1)
       = Some (Some 11)"
    by code_simp+
  show ?thesis
    using promoteFromWaitlist_selection [OF h, of 1 9] h e by simp
qed

text \<open>
  The claim as stated promises the insert for every selected entry. In
  \<open>one_seat_requeued\<close> student 7 has the withdrawn enrollment 1 of activity 1 and is
  the only waiting entry; the promotion raises, and the cancellation of student 8's
  enrollment that triggers it is rolled back.
\<close>

theorem promotion_duplicate_counterexample:
  "reachable one_seat_requeued
   \<and> map (\<lambda>e. (enr_student e, enr_activity e, enr_status e)) (enrollments one_seat_requeued)
       = [(7, 1, ''withdrawn''), (8, 1, ''active'')]
   \<and> map (\<lambda>w. (wl_student w, wl_activity w, wl_status w)) (waitlist one_seat_requeued)
       = [(7, 1, Waiting)]
   \<and> promoteFromWaitlist 9 one_seat_requeued 1 = None
   \<and> cancelEnrollment 9 (ex_cancel 2 8) one_seat_requeued = (CancelFailed, one_seat_requeued)"
proof -
  have "map (\<lambda>e. (enr_student e, enr_activity e, enr_status e)) (enrollments one_seat_requeued)
       = [(7, 1, ''withdrawn''), (8, 1, ''active'')]"
    "map (\<lambda>w. (wl_student w, wl_activity w, wl_status w)) (waitlist one_seat_requeued)
       = [(7, 1, Waiting)]"
    "promoteFromWaitlist 9 one_seat_requeued 1 = None"
    "cancelEnrollment 9 (ex_cancel 2 8) one_seat_requeued = (CancelFailed, one_seat_requeued)"
    by code_simp+
  then show ?thesis using one_seat_requeued_reachable by simp
qed

section \<open>Cancellation\<close>

lemma withdraw_row_explicit:
  "withdraw_row now eid r =
     (\<lambda>x. if enr_id x = eid
          then x\<lparr> enr_status := ''withdrawn'', enr_cancelled_at := Some now,
                  enr_cancellation_reason :=
                    Some (case r of
                            None \<Rightarrow> ''Student requested''
                          | Some t \<Rightarrow> if t = [] then ''Student requested'' else t) \<rparr>
          else x)"
  by (auto simp: fun_eq_iff withdraw_row_def str_or_null_def split: option.splits)

lemma one_seat_left_reachable: "reachable one_seat_left"
  unfolding one_seat_left_def one_seat_promoted_def one_seat_waiting_def one_seat_taken_def
  by (rule r_cancel, rule r_cancel, rule r_register, rule r_register, rule r_start)
     (simp add: one_seat_db_def)

text \<open>
  C7, as amended. With waitlist ids distinct (the primary key), a call of
  \<open>cancelEnrollment\<close> ends in one of two ways. Either it answers with an error (404
  or 500) and returns the store as it was; or it answers with success, and in the
  store it returns every enrollment with the given id is withdrawn, with the
  cancellation time and the reason (the given one, or \<open>'Student requested'\<close>)
  recorded and every other enrollment as it was, and the promotion has taken effect
  with it: when no entry of the activity was waiting the waitlist is unchanged, and
  otherwise exactly one waiting entry of the activity has become promoted and one new
  active enrollment of that entry's student has been appended. So the store a call
  returns never has an entry that this call marked promoted without the new
  enrollment row.
\<close>

theorem cancelEnrollment_atomic:
  assumes ids: "distinct (map wl_id (waitlist d))"
  shows "case cancelEnrollment now cq d of
           (EnrollmentNotFound, d') \<Rightarrow> d' = d
         | (CancelFailed, d') \<Rightarrow> d' = d
         | (Cancelled promoted, d') \<Rightarrow>
             activities d' = activities d \<and> schedules d' = schedules d
           \<and> (\<exists>e\<in>set (enrollments d).
                  enr_id e = cq_enrollment cq \<and> enr_student e = cq_student cq
                \<and> enr_status e = ''active''
                \<and> (case promoted of
                      None \<Rightarrow>
                        filter (\<lambda>w. wl_activity w = enr_activity e \<and> wl_status w = Waiting)
                               (waitlist d) = []
                        \<and> waitlist d' = waitlist d
                        \<and> enrollments d' =
                            map (\<lambda>x. if enr_id x = cq_enrollment cq
                                      then x\<lparr> enr_status := ''withdrawn'',
                                              enr_cancelled_at := Some now,
                                              enr_cancellation_reason :=
                                                Some (case cq_reason cq of
                                                        None \<Rightarrow> ''Student requested''
                                                      | Some t \<Rightarrow>
                                                          if t = [] then ''Student requested''
                                                          else t) \<rparr>
                                      else x) (enrollments d)
                    | Some (s, t) \<Rightarrow>
                        (\<exists>w\<in>set (waitlist d). \<exists>row.
                            wl_status w = Waiting \<and> wl_activity w = enr_activity e
                          \<and> wl_student w = s \<and> t = now
                          \<and> enr_student row = s \<and> enr_activity row = enr_activity e
                          \<and> enr_status row = ''active''
                          \<and> enr_id row \<noteq> cq_enrollment cq
                          \<and> enrollments d' =
                              map (\<lambda>x. if enr_id x = cq_enrollment cq
                                        then x\<lparr> enr_status := ''withdrawn'',
                                                enr_cancelled_at := Some now,
                                                enr_cancellation_reason :=
                                                  Some (case cq_reason cq of
                                                          None \<Rightarrow> ''Student requested''
                                                        | Some t \<Rightarrow>
                                                            if t = [] then ''Student requested''
                                                            else t) \<rparr>
                                        else x) (enrollments d) @ [row]
                          \<and> waitlist d' =
                              map (\<lambda>v. if v = w
                                        then v\<lparr> wl_status := Promoted,
                                                wl_promoted_at := Some now \<rparr>
                                        else v) (waitlist d))))"
proof (cases "filter (cancellable cq) (enrollments d)")
  case Nil
  show ?thesis unfolding cancelEnrollment_not_found [OF Nil] by simp
next
  case (Cons e rest)
  note e = cancellable_in_filter [OF Cons]
  let ?a = "enr_activity e"
  let ?W = "\<lambda>x. if enr_id x = cq_enrollment cq
                then x\<lparr> enr_status := ''withdrawn'', enr_cancelled_at := Some now,
                        enr_cancellation_reason :=
                          Some (case cq_reason cq of
                                  None \<Rightarrow> ''Student requested''
                                | Some t \<Rightarrow> if t = [] then ''Student requested'' else t) \<rparr>
                else x"
  let ?es = "map ?W (enrollments d)"
  have W: "withdraw_row now (cq_enrollment cq) (cq_reason cq) = ?W"
    by (rule withdraw_row_explicit)
  have ec: "enr_id e = cq_enrollment cq" "enr_student e = cq_student cq"
    "enr_status e = ''active''" "e \<in> set (enrollments d)"
    using e by (simp_all add: cancellable_def)
  show ?thesis
  proof (cases "waitlistQuery d ?a")
    case None
    then have "filter (\<lambda>w. wl_activity w = ?a \<and> wl_status w = Waiting) (waitlist d) = []"
      by (simp add: waitlistQuery_None waiting_for_def)
    with ec have "\<exists>e\<in>set (enrollments d).
                  enr_id e = cq_enrollment cq \<and> enr_student e = cq_student cq
                \<and> enr_status e = ''active''
                \<and> filter (\<lambda>w. wl_activity w = enr_activity e \<and> wl_status w = Waiting)
                          (waitlist d) = []"
      by blast
    then show ?thesis
      unfolding cancelEnrollment_no_waiting [OF Cons None] W
      by (simp add: logAudit_def)
  next
    case (Some w)
    note sel = first_in_order_Some [OF Some [unfolded waitlistQuery_def]]
    from sel have mem: "w \<in> set (waitlist d)" "wl_activity w = ?a" "wl_status w = Waiting"
      by (auto simp: waiting_for_def)
    show ?thesis
    proof (cases "rows_of d (wl_student w) ?a = []")
      case False
      show ?thesis unfolding cancelEnrollment_promotion_fails [OF Cons Some False] by simp
    next
      case True
      let ?row = "promoted_row d w ?a"
      let ?wl = "map (\<lambda>v. if v = w then v\<lparr> wl_status := Promoted, wl_promoted_at := Some now \<rparr>
                           else v) (waitlist d)"
      note res = cancelEnrollment_promotes [OF Cons Some True, of now,
          unfolded mark_promoted_only(1) [OF ids mem(1), of now] W]
      have row: "enr_student ?row = wl_student w" "enr_activity ?row = ?a"
        "enr_status ?row = ''active''"
        by (simp_all add: promoted_row_def)
      have rid: "enr_id ?row \<noteq> cq_enrollment cq"
        using promoted_row_id [OF ec(4), of w ?a] ec(1) by simp
      have "\<exists>w'\<in>set (waitlist d). \<exists>r.
                    wl_status w' = Waiting \<and> wl_activity w' = ?a
                  \<and> wl_student w' = wl_student w
                  \<and> enr_student r = wl_student w \<and> enr_activity r = ?a
                  \<and> enr_status r = ''active''
                  \<and> enr_id r \<noteq> cq_enrollment cq
                  \<and> ?es @ [?row] = ?es @ [r]
                  \<and> ?wl = map (\<lambda>v. if v = w'
                                        then v\<lparr> wl_status := Promoted,
                                                wl_promoted_at := Some now \<rparr>
                                        else v) (waitlist d)"
        by (rule bexI [OF _ mem(1)], rule exI [of _ ?row]) (simp add: mem row rid)
      with ec have "\<exists>e\<in>set (enrollments d).
                  enr_id e = cq_enrollment cq \<and> enr_student e = cq_student cq
                \<and> enr_status e = ''active''
                \<and> (\<exists>w'\<in>set (waitlist d). \<exists>r.
                    wl_status w' = Waiting \<and> wl_activity w' = enr_activity e
                  \<and> wl_student w' = wl_student w
                  \<and> enr_student r = wl_student w \<and> enr_activity r = enr_activity e
                  \<and> enr_status r = ''active''
                  \<and> enr_id r \<noteq> cq_enrollment cq
                  \<and> ?es @ [?row] = ?es @ [r]
                  \<and> ?wl = map (\<lambda>v. if v = w'
                                        then v\<lparr> wl_status := Promoted,
                                                wl_promoted_at := Some now \<rparr>
                                        else v) (waitlist d))"
        by blast
      then show ?thesis
        unfolding res by (simp add: logAudit_def)
    qed
  qed
qed

theorem cancelEnrollment_atomic_witness:
  "distinct (map wl_id (waitlist priority_db))
   \<and> fst (cancelEnrollment 9 (ex_cancel 1 7) priority_db) = Cancelled (Some (12, 9))
   \<and> map (\<lambda>e. (enr_student e, enr_status e, enr_cancelled_at e, enr_cancellation_reason e))
         (enrollments (snd (cancelEnrollment 9 (ex_cancel 1 7) priority_db)))
       = [(7, ''withdrawn'', Some 9, Some ''Student requested''), (12, ''active'', None, None)]
   \<and> map (\<lambda>w. (wl_student w, wl_status w, wl_promoted_at w))
         (waitlist (snd (cancelEnrollment 9 (ex_cancel 1 7) priority_db)))
       = [(11, Waiting, None), (12, Promoted, Some 9), (13, Waiting, None)]
   \<and> cancelEnrollment 9 (ex_cancel 2 8) one_seat_requeued = (CancelFailed, one_seat_requeued)"
proof -
  have h: "distinct (map wl_id (waitlist priority_db))"
    by code_simp
  have e: "fst (cancelEnrollment 9 (ex_cancel 1 7) priority_db) = Cancelled (Some (12, 9))"
    "map (\<lambda>e. (enr_student e, enr_status e, enr_cancelled_at e, enr_cancellation_reason e))
         (enrollments (snd (cancelEnrollment 9 (ex_cancel 1 7) priority_db)))
       = [(7, ''withdrawn'', Some 9, Some ''Student requested''), (12, ''active'', None, None)]"
    "map (\<lambda>w. (wl_student w, wl_status w, wl_promoted_at w))
         (waitlist (snd (cancelEnrollment 9 (ex_cancel 1 7) priority_db)))
       = [(11, Waiting, None), (12, Promoted, Some 9), (13, Waiting, None)]"
    "cancelEnrollment 9 (ex_cancel 2 8) one_seat_requeued = (CancelFailed, one_seat_requeued)"
    by code_simp+
  show ?thesis
    using cancelEnrollment_atomic [OF h, of "ex_cancel 1 7" 9] h e by simp
qed

text \<open>
  The claim as stated says that no reachable store has a promoted entry without a
  matching active enrollment. In \<open>one_seat_left\<close> student 8 was promoted from the
  waitlist into enrollment 2 and has then cancelled it: the waitlist entry is still
  promoted, and student 8 has no active enrollment. No operation writes the waitlist
  entry again.
\<close>

theorem promoted_without_enrollment_counterexample:
  "reachable one_seat_left
   \<and> fst (cancelEnrollment 5 (ex_cancel 1 7) one_seat_waiting) = Cancelled (Some (8, 5))
   \<and> fst (cancelEnrollment 6 (ex_cancel 2 8) one_seat_promoted) = Cancelled None
   \<and> map (\<lambda>w. (wl_student w, wl_activity w, wl_status w)) (waitlist one_seat_left)
       = [(8, 1, Promoted)]
   \<and> map (\<lambda>e. (enr_student e, enr_activity e, enr_status e)) (enrollments one_seat_left)
       = [(7, 1, ''withdrawn''), (8, 1, ''withdrawn'')]"
proof -
  have "fst (cancelEnrollment 5 (ex_cancel 1 7) one_seat_waiting) = Cancelled (Some (8, 5))"
    "fst (cancelEnrollment 6 (ex_cancel 2 8) one_seat_promoted) = Cancelled None"
    "map (\<lambda>w. (wl_student w, wl_activity w, wl_status w)) (waitlist one_seat_left)
       = [(8, 1, Promoted)]"
    "map (\<lambda>e. (enr_student e, enr_activity e, enr_status e)) (enrollments one_seat_left)
       = [(7, 1, ''withdrawn''), (8, 1, ''withdrawn'')]"
    by code_simp+
  then show ?thesis using one_seat_left_reachable by simp
qed

text \<open>
  C9, as amended. With enrollment ids distinct (the primary key), \<open>cancelEnrollment\<close>
  answers NotFound exactly when no enrollment with status \<open>'active'\<close> has the given
  id and student, and then returns the store as it was. For a matching active enrollment
  it answers with success and that enrollment is withdrawn, provided the promotion it
  triggers can insert: no entry of the activity is waiting, or the selected student has
  no enrollment row for the activity.
\<close>

theorem cancelEnrollment_coverage:
  assumes ids: "distinct (map enr_id (enrollments d))"
  shows "(fst (cancelEnrollment now cq d) = EnrollmentNotFound
            \<longleftrightarrow> filter (\<lambda>e. enr_id e = cq_enrollment cq \<and> enr_student e = cq_student cq
                           \<and> enr_status e = ''active'') (enrollments d) = [])
       \<and> (fst (cancelEnrollment now cq d) = EnrollmentNotFound
            \<longrightarrow> snd (cancelEnrollment now cq d) = d)
       \<and> (\<forall>e\<in>set (enrollments d).
             enr_id e = cq_enrollment cq \<and> enr_student e = cq_student cq
             \<and> enr_status e = ''active''
             \<and> (case waitlistQuery d (enr_activity e) of
                  None \<Rightarrow> True
                | Some w \<Rightarrow> rows_of d (wl_student w) (enr_activity e) = [])
           \<longrightarrow> is_Cancelled (fst (cancelEnrollment now cq d))
               \<and> map enr_status (filter (\<lambda>e'. enr_id e' = cq_enrollment cq)
                     (enrollments (snd (cancelEnrollment now cq d)))) = [''withdrawn''])"
proof -
  have c: "cancellable cq = (\<lambda>e. enr_id e = cq_enrollment cq \<and> enr_student e = cq_student cq
                           \<and> enr_status e = ''active'')"
    by (simp add: fun_eq_iff cancellable_def)
  let ?es = "map (withdraw_row now (cq_enrollment cq) (cq_reason cq)) (enrollments d)"
  have first: "fst (cancelEnrollment now cq d) = EnrollmentNotFound
            \<longleftrightarrow> filter (cancellable cq) (enrollments d) = []"
  proof (cases "filter (cancellable cq) (enrollments d)")
    case Nil
    then show ?thesis by (simp add: cancelEnrollment_not_found)
  next
    case (Cons e rest)
    show ?thesis
    proof (cases "waitlistQuery d (enr_activity e)")
      case None
      show ?thesis using Cons by (simp add: cancelEnrollment_no_waiting [OF Cons None])
    next
      case (Some w)
      show ?thesis
      proof (cases "rows_of d (wl_student w) (enr_activity e) = []")
        case True
        show ?thesis using Cons by (simp add: cancelEnrollment_promotes [OF Cons Some True])
      next
        case False
        show ?thesis
          using Cons by (simp add: cancelEnrollment_promotion_fails [OF Cons Some False])
      qed
    qed
  qed
  have second: "snd (cancelEnrollment now cq d) = d"
    if "fst (cancelEnrollment now cq d) = EnrollmentNotFound"
    using that first by (simp add: cancelEnrollment_not_found)
  have third: "is_Cancelled (fst (cancelEnrollment now cq d))
               \<and> map enr_status (filter (\<lambda>e'. enr_id e' = cq_enrollment cq)
                     (enrollments (snd (cancelEnrollment now cq d)))) = [''withdrawn'']"
    if e: "e \<in> set (enrollments d)" "cancellable cq e"
      and w: "case waitlistQuery d (enr_activity e) of
                  None \<Rightarrow> True
                | Some w \<Rightarrow> rows_of d (wl_student w) (enr_activity e) = []" for e
  proof -
    have f: "filter (cancellable cq) (enrollments d) = [e]"
      using ids e by (rule filter_cancellable_single)
    have eid: "enr_id e = cq_enrollment cq" using e(2) by (simp add: cancellable_def)
    have "filter (\<lambda>x. enr_id x = cq_enrollment cq) (enrollments d) = [e]"
      using filter_id_single [OF ids e(1)] eid by simp
    then have old: "map enr_status (filter (\<lambda>e'. enr_id e' = cq_enrollment cq) ?es)
        = [''withdrawn'']"
      using eid by (simp add: filter_id_withdrawn withdraw_row_def)
    show ?thesis
    proof (cases "waitlistQuery d (enr_activity e)")
      case None
      show ?thesis
        using old by (simp add: cancelEnrollment_no_waiting [OF f None] is_Cancelled_def
            logAudit_def)
    next
      case (Some v)
      with w have r: "rows_of d (wl_student v) (enr_activity e) = []" by simp
      have "enr_id (promoted_row d v (enr_activity e)) \<noteq> cq_enrollment cq"
        using promoted_row_id [OF e(1), of v "enr_activity e"] eid by simp
      then show ?thesis
        using old by (simp add: cancelEnrollment_promotes [OF f Some r] is_Cancelled_def
            logAudit_def)
    qed
  qed
  show ?thesis
    using first second third unfolding c by blast
qed

theorem cancelEnrollment_coverage_witness:
  "distinct (map enr_id (enrollments one_seat_taken))
   \<and> map (\<lambda>e. (enr_id e, enr_student e, enr_status e)) (enrollments one_seat_taken)
       = [(1, 7, ''active'')]
   \<and> waitlistQuery one_seat_taken 1 = None
   \<and> is_Cancelled (fst (cancelEnrollment 5 (ex_cancel 1 7) one_seat_taken))
   \<and> map enr_status (filter (\<lambda>e'. enr_id e' = 1)
         (enrollments (snd (cancelEnrollment 5 (ex_cancel 1 7) one_seat_taken))))
       = [''withdrawn'']
   \<and> cancelEnrollment 5 (ex_cancel 1 8) one_seat_taken = (EnrollmentNotFound, one_seat_taken)"
proof -
  have e: "map (\<lambda>e. (enr_id e, enr_student e, enr_status e)) (enrollments one_seat_taken)
       = [(1, 7, ''active'')]"
    "waitlistQuery one_seat_taken 1 = None"
    "is_Cancelled (fst (cancelEnrollment 5 (ex_cancel 1 7) one_seat_taken))"
    "map enr_status (filter (\<lambda>e'. enr_id e' = 1)
         (enrollments (snd (cancelEnrollment 5 (ex_cancel 1 7) one_seat_taken))))
       = [''withdrawn'']"
    "cancelEnrollment 5 (ex_cancel 1 8) one_seat_taken = (EnrollmentNotFound, one_seat_taken)"
    by code_simp+
  show ?thesis
    using cancelEnrollment_coverage [OF one_seat_taken_ids, of 5 "ex_cancel 1 7"]
      one_seat_taken_ids e by simp
qed

text \<open>
  The claim as stated covers approved enrollments. In \<open>one_seat_approved\<close> enrollment 1
  of student 7 is approved, and its cancellation is answered with NotFound.
\<close>

theorem cancel_approved_counterexample:
  "map (\<lambda>e. (enr_id e, enr_student e, enr_status e)) (enrollments one_seat_approved)
       = [(1, 7, ''approved'')]
   \<and> cancelEnrollment 5 (ex_cancel 1 7) one_seat_approved
       = (EnrollmentNotFound, one_seat_approved)"
  by code_simp

section \<open>Registering again after a cancellation\<close>

text \<open>
  C8, as amended. Start with no enrollment row for a (student, activity) pair. When the
  registration enrolls the student and the cancellation of that enrollment succeeds,
  the pair has exactly one row after the registration, with status active, and exactly
  one row after the cancellation: the same row, now withdrawn with its cancellation
  time, kept as history. A registration of the pair after that is never answered with
  a new enrollment and leaves the rows of the pair as they are (the key
  \<open>unique_enrollment\<close> admits one row per pair); \<open>enrollStudent\<close> of the first
  controller leaves the store unchanged as well.
\<close>

theorem reregistration_after_cancel:
  assumes rq: "rq_student rq = Some sid" "rq_activity rq = Some aid"
    and fresh: "rows_of d0 sid aid = []"
    and reg: "registerStudent t1 rq d0 = (Enrolled e n q, d1)"
    and can: "cancelEnrollment t2
                \<lparr> cq_enrollment = enr_id e, cq_student = sid, cq_reason = r \<rparr> d1
              = (Cancelled p, d2)"
  shows "map enr_status (rows_of d1 sid aid) = [''active'']
       \<and> map (\<lambda>x. (enr_id x, enr_status x, enr_cancelled_at x)) (rows_of d2 sid aid)
           = [(enr_id e, ''withdrawn'', Some t2)]
       \<and> \<not> is_Enrolled (fst (registerStudent t3 rq d2))
       \<and> rows_of (snd (registerStudent t3 rq d2)) sid aid = rows_of d2 sid aid
       \<and> snd (enrollStudent \<lparr> eq_student = Some sid, eq_activity = Some aid, eq_notes = nt \<rparr> d2)
           = d2"
proof -
  let ?cq = "\<lparr> cq_enrollment = enr_id e, cq_student = sid, cq_reason = r \<rparr>"
  let ?pair = "\<lambda>e. enr_student e = sid \<and> enr_activity e = aid"
  note en = registerStudent_Enrolled [OF reg rq]
  have old: "filter ?pair (enrollments d0) = []" using fresh by (simp add: rows_of_def)
  have r1: "rows_of d1 sid aid = [e]"
    using en(1,3,4) old by (simp add: rows_of_def)
  have c: "cancellable ?cq e" using en(3,5) by (simp add: cancellable_def)
  have f: "filter (cancellable ?cq) (enrollments d1) = e # []"
    unfolding en(1) using en(6) c by (rule filter_cancellable_fresh)
  let ?es = "map (withdraw_row t2 (enr_id e) r) (enrollments d1)"
  have wes: "filter ?pair ?es = [withdraw_row t2 (enr_id e) r e]"
    using r1 by (simp add: filter_pair_withdrawn rows_of_def)
  have r2: "rows_of d2 sid aid = [withdraw_row t2 (enr_id e) r e]"
  proof (cases "waitlistQuery d1 (enr_activity e)")
    case None
    from cancelEnrollment_no_waiting [OF f None, of t2] can
    have "enrollments d2 = ?es" by (simp add: logAudit_def)
    with wes show ?thesis by (simp add: rows_of_def)
  next
    case (Some w)
    show ?thesis
    proof (cases "rows_of d1 (wl_student w) (enr_activity e) = []")
      case False
      from cancelEnrollment_promotion_fails [OF f Some False, of t2] can
      show ?thesis by simp
    next
      case True
      with r1 en(4) have ne: "wl_student w \<noteq> sid" by auto
      from cancelEnrollment_promotes [OF f Some True, of t2] can
      have "enrollments d2 = ?es @ [promoted_row d1 w (enr_activity e)]"
        by (simp add: logAudit_def)
      with wes ne show ?thesis by (simp add: rows_of_def promoted_row_def)
    qed
  qed
  then have ne2: "rows_of d2 sid aid \<noteq> []" by simp
  note third = registerStudent_existing_row [OF ne2 rq, of t3]
  have "rows_of (snd (registerStudent t3 rq d2)) sid aid = rows_of d2 sid aid"
    using third(2) by (simp add: rows_of_def)
  then show ?thesis
    using r1 r2 en(5) third(1) enrollStudent_existing_row [OF ne2, of nt]
    by (simp add: withdraw_row_def)
qed

theorem reregistration_after_cancel_witness:
  "rows_of one_seat_db 7 1 = []
   \<and> is_Enrolled (fst (registerStudent 0 (ex_request 7 1) one_seat_db))
   \<and> fst (cancelEnrollment 5 (ex_cancel 1 7) one_seat_taken) = Cancelled None
   \<and> map enr_status (rows_of one_seat_taken 7 1) = [''active'']
   \<and> map (\<lambda>x. (enr_id x, enr_status x, enr_cancelled_at x)) (rows_of one_seat_withdrawn 7 1)
       = [(1, ''withdrawn'', Some 5)]
   \<and> \<not> is_Enrolled (fst (registerStudent 5 (ex_request 7 1) one_seat_withdrawn))
   \<and> rows_of (snd (registerStudent 5 (ex_request 7 1) one_seat_withdrawn)) 7 1
       = rows_of one_seat_withdrawn 7 1"
proof -
  let ?e = "\<lparr> enr_id = 1, enr_student = 7, enr_activity = 1, enr_status = ''active'',
              enr_grade = Some 5, enr_enrolled_by = None, enr_notes = None,
              enr_cancelled_at = None, enr_cancellation_reason = None \<rparr>"
  have rq: "rq_student (ex_request 7 1) = Some 7" "rq_activity (ex_request 7 1) = Some 1"
    by (simp_all add: ex_request_def)
  have fresh: "rows_of one_seat_db 7 1 = []"
    by (simp add: one_seat_db_def rows_of_def)
  have "fst (registerStudent 0 (ex_request 7 1) one_seat_db) = Enrolled ?e 1 1"
    by code_simp
  then have reg: "registerStudent 0 (ex_request 7 1) one_seat_db
                    = (Enrolled ?e 1 1, one_seat_taken)"
    by (simp add: one_seat_taken_def prod_eq_iff)
  have "fst (cancelEnrollment 5 (ex_cancel 1 7) one_seat_taken) = Cancelled None"
    by code_simp
  then have can: "cancelEnrollment 5
      \<lparr> cq_enrollment = enr_id ?e, cq_student = 7, cq_reason = None \<rparr> one_seat_taken
      = (Cancelled None, one_seat_withdrawn)"
    by (simp add: one_seat_withdrawn_def prod_eq_iff ex_cancel_def)
  have en: "is_Enrolled (fst (registerStudent 0 (ex_request 7 1) one_seat_db))"
    "fst (cancelEnrollment 5 (ex_cancel 1 7) one_seat_taken) = Cancelled None"
    by code_simp+
  show ?thesis
    using reregistration_after_cancel [OF rq fresh reg can, of 5] fresh en by simp
qed

text \<open>
  The claim as stated has the third step succeed. In \<open>one_seat_db\<close> student 7
  registers for activity 1 and cancels; the registration that follows passes every
  check, its insert violates the key on the stored withdrawn row, and the answer is the
  500 of the \<open>catch\<close> block. The first controller answers that the student is
  already enrolled.
\<close>

theorem reregistration_counterexample:
  "rows_of one_seat_db 7 1 = []
   \<and> is_Enrolled (fst (registerStudent 0 (ex_request 7 1) one_seat_db))
   \<and> one_seat_taken = snd (registerStudent 0 (ex_request 7 1) one_seat_db)
   \<and> fst (cancelEnrollment 5 (ex_cancel 1 7) one_seat_taken) = Cancelled None
   \<and> one_seat_withdrawn = snd (cancelEnrollment 5 (ex_cancel 1 7) one_seat_taken)
   \<and> registerStudent 5 (ex_request 7 1) one_seat_withdrawn
       = (EnrollmentFailed, one_seat_withdrawn)
   \<and> map enr_status (rows_of one_seat_withdrawn 7 1) = [''withdrawn'']
   \<and> fst (enrollStudent \<lparr> eq_student = Some 7, eq_activity = Some 1, eq_notes = None \<rparr>
             one_seat_withdrawn) = EnrollAlreadyEnrolled"
  by code_simp

end
